theory Spec2Isabelle
  imports Complex_Main
begin

section \<open>Python values, numpy arrays and errors\<close>

text \<open>
  The facade \<^verbatim>\<open>compiledtrees/compiled.py\<close> is Python 2 code on top of numpy and
  scikit-learn. Floating-point numbers are idealised as \<^typ>\<open>real\<close>; byte strings,
  paths and names are \<^typ>\<open>string\<close>.
\<close>

datatype pyobj = PyBool bool | PyInt int | PyStr string | PyNone

text \<open>Python truth value testing, as used by \<^verbatim>\<open>not\<close>, \<^verbatim>\<open>and\<close> and \<^verbatim>\<open>all\<close>.\<close>

fun truthy :: "pyobj \<Rightarrow> bool" where
  "truthy (PyBool b) = b"
| "truthy (PyInt n) = (n \<noteq> 0)"
| "truthy (PyStr s) = (s \<noteq> [])"
| "truthy PyNone = False"

datatype dtype = Float32 | Float64 | Int32 | Int64 | Object

record ndarray =
  dtype :: dtype
  shape :: "nat list"
  data :: "real list"

datatype pyerr =
    ValueError_cannot_compile string
  | ValueError_dtype dtype dtype
  | ValueError_ndim "nat list"
  | ValueError_n_features pyobj nat
  | AssertionError
  | AttributeError string
  | ZeroDivisionError
  | IndexError
  | KeyError string
  | TypeError
  | IOError string
  | StructuralError
  | CompileError string
  | LoadError string
  | UndefinedSymbol

section \<open>Tree IR\<close>

text \<open>
  One decision tree is an array of nodes indexed by node id, root at index 0. A node has
  a feature index and a threshold (used at internal nodes), two child ids, a leaf value
  and a leaf flag.
\<close>

record node =
  feature :: int
  threshold :: real
  left :: nat
  right :: nat
  nvalue :: real
  is_leaf :: bool

type_synonym tree_ir = "node list"

section \<open>The fitted models handed to the facade\<close>

text \<open>
  The three classes the facade dispatches on with \<^verbatim>\<open>isinstance\<close>, and every other
  object. Each carries its \<^verbatim>\<open>__class__.__name__\<close>. The attributes of a decision tree
  regressor are \<^verbatim>\<open>None\<close> until it is fitted. \<^verbatim>\<open>estimators_\<close> is kept in \<^verbatim>\<open>.flat\<close>
  order, so that \<^verbatim>\<open>estimators_.size\<close> is its length. The selectors drop the trailing
  underscore of the attributes; \<open>dt_n_features\<close> and \<open>rf_n_features\<close> are \<^verbatim>\<open>n_features_\<close>
  of a tree and of a forest, \<open>gb_n_features\<close> is \<^verbatim>\<open>n_features\<close> of a boosted ensemble.
\<close>

datatype model =
    DecisionTreeRegressor
      (class_name: string) (n_outputs: "int option") (n_classes: "int option")
      (tree: "tree_ir option") (dt_n_features: "nat option")
  | GradientBoostingRegressor
      (class_name: string) (estimators: "model list") (learning_rate: real)
      (gb_n_features: nat) (init_decision_function: "real list list \<Rightarrow> real list list")
  | ForestRegressor
      (class_name: string) (estimators: "model list") (n_estimators: int)
      (rf_n_features: nat)
  | Other (class_name: string)

section \<open>The world the facade runs in\<close>

datatype event =
    Call_code_gen_tree tree_ir
  | Call_code_gen_ensemble "tree_ir list" real real
  | Call_compile_code_to_object string
  | Call_CompiledPredictor string string
  | Call_native "real list"

text \<open>
  \<open>files\<close> is the file system (path to content), \<open>tmp_seq\<close> counts the temporary files
  created so far, \<open>arrays\<close> is the heap of numpy arrays (an array's identity is its
  index) and \<open>trace\<close> records every call that leaves the facade.
\<close>

record world =
  files :: "string \<rightharpoonup> string"
  tmp_seq :: nat
  arrays :: "ndarray list"
  trace :: "event list"

text \<open>
  The collaborators that \<^verbatim>\<open>compiled.py\<close> imports: the code generator module \<^verbatim>\<open>cg\<close>,
  the symbol table of a shared module (what \<^verbatim>\<open>dlopen\<close>/\<^verbatim>\<open>dlsym\<close> find in its bytes),
  scikit-learn's \<^verbatim>\<open>DTYPE\<close> and the names \<^verbatim>\<open>tempfile\<close> hands out.
\<close>

record env =
  cg_code_gen_tree :: "tree_ir \<Rightarrow> pyerr + string list"
  cg_code_gen_ensemble :: "tree_ir list \<Rightarrow> real \<Rightarrow> real \<Rightarrow> pyerr + string list"
  cg_compile_code_to_object ::
    "string \<Rightarrow> (string \<rightharpoonup> string) \<Rightarrow> (pyerr + string) \<times> (string \<rightharpoonup> string)"
  cg_EVALUATE_FN_NAME :: string
  dlsym :: "string \<Rightarrow> string \<Rightarrow> pyerr + (real list \<Rightarrow> real)"
  DTYPE :: dtype
  tmp_name :: "nat \<Rightarrow> string"

datatype evaluator = Evaluator (func: "real list \<Rightarrow> real")

record predictor =
  self_n_features :: pyobj
  self_evaluator :: evaluator
  self_so_f :: string

definition log_call :: "event \<Rightarrow> world \<Rightarrow> world" where
  "log_call e w = w\<lparr>trace := trace w @ [e]\<rparr>"

section \<open>The native loader and evaluator\<close>

text \<open>
  Modelled from the spec: \<^verbatim>\<open>_compiled.CompiledPredictor\<close> is not among the sources.
  \<^verbatim>\<open>load(path, entry point name)\<close> opens the module and resolves the entry point
  symbol; it fails with a load error if the module is missing, is not a valid module or
  lacks the symbol.
\<close>

definition CompiledPredictor ::
  "env \<Rightarrow> string \<Rightarrow> string \<Rightarrow> world \<Rightarrow> (pyerr + evaluator) \<times> world" where
  "CompiledPredictor env path name w =
     (let w' = log_call (Call_CompiledPredictor path name) w in
      case files w path of
        None \<Rightarrow> (Inl (LoadError path), w')
      | Some bytes \<Rightarrow>
          (case dlsym env bytes name of
             Inl e \<Rightarrow> (Inl e, w')
           | Inr f \<Rightarrow> (Inr (Evaluator f), w')))"

text \<open>Row \<open>i\<close> of a row-major matrix with \<open>m\<close> columns.\<close>

definition row :: "ndarray \<Rightarrow> nat \<Rightarrow> nat \<Rightarrow> real list" where
  "row X m i = take m (drop (i * m) (data X))"

text \<open>
  Modelled from the spec: the evaluator's batch loop. For each sample row it invokes the
  resolved evaluation function once and writes the result into the output buffer at the
  matching index; the buffer is returned.
\<close>

fun predict_rows ::
  "evaluator \<Rightarrow> ndarray \<Rightarrow> nat \<Rightarrow> nat \<Rightarrow> nat list \<Rightarrow> world \<Rightarrow> world" where
  "predict_rows ev X m result [] w = w"
| "predict_rows ev X m result (i # is) w =
     (let r = row X m i;
          out = arrays w ! result;
          w1 = log_call (Call_native r) w;
          w2 = w1\<lparr>arrays := (arrays w1)[result := out\<lparr>data := (data out)[i := func ev r]\<rparr>]\<rparr>
      in predict_rows ev X m result is w2)"

definition evaluator_predict ::
  "evaluator \<Rightarrow> ndarray \<Rightarrow> nat \<Rightarrow> world \<Rightarrow> (pyerr + nat) \<times> world" where
  "evaluator_predict ev X result w =
     (case shape X of
        [n_samples, m] \<Rightarrow> (Inr result, predict_rows ev X m result [0..<n_samples] w)
      | _ \<Rightarrow> (Inl IndexError, w))"

text \<open>
  \<^verbatim>\<open>np.empty(n, dtype)\<close>: a new one-dimensional array. Its initial contents are
  arbitrary in numpy; here they are zeros.
\<close>

definition np_empty :: "nat \<Rightarrow> dtype \<Rightarrow> world \<Rightarrow> nat \<times> world" where
  "np_empty n dt w =
     (length (arrays w),
      w\<lparr>arrays := arrays w @ [\<lparr>dtype = dt, shape = [n], data = replicate n 0\<rparr>]\<rparr>)"

section \<open>The facade: \<^verbatim>\<open>CompiledRegressionPredictor\<close>\<close>

text \<open>
  \<^verbatim>\<open>compilable\<close>. The result is the Python object the source returns: a comparison
  chain gives a \<^verbatim>\<open>bool\<close>, and \<^verbatim>\<open>estimators_.size and all(...)\<close> gives the integer
  \<^verbatim>\<open>0\<close> for an empty ensemble and the \<^verbatim>\<open>bool\<close> of \<^verbatim>\<open>all\<close> otherwise.
\<close>

fun compilable :: "model \<Rightarrow> pyobj" where
  "compilable (DecisionTreeRegressor nm n_out n_cls t nf) =
     PyBool (n_out = Some 1 \<and> n_cls = Some 1 \<and> t \<noteq> None)"
| "compilable (GradientBoostingRegressor nm es lr nf idf) =
     (if int (length es) = 0 then PyInt (int (length es))
      else PyBool (list_all (\<lambda>e. truthy (compilable e)) es))"
| "compilable (ForestRegressor nm es n nf) =
     (if int (length es) = 0 then PyInt (int (length es))
      else PyBool (list_all (\<lambda>e. truthy (compilable e)) es))"
| "compilable (Other nm) = PyBool False"

text \<open>\<^verbatim>\<open>e.tree_\<close> for a member \<open>e\<close> of an ensemble: only a tree regressor has the attribute.\<close>

fun member_tree :: "model \<Rightarrow> pyerr + tree_ir" where
  "member_tree (DecisionTreeRegressor nm n_out n_cls (Some t) nf) = Inr t"
| "member_tree (DecisionTreeRegressor nm n_out n_cls None nf) = Inl TypeError"
| "member_tree m = Inl (AttributeError ''tree_'')"

fun member_trees :: "model list \<Rightarrow> pyerr + tree_ir list" where
  "member_trees [] = Inr []"
| "member_trees (e # es) =
     (case member_tree e of
        Inl err \<Rightarrow> Inl err
      | Inr t \<Rightarrow> (case member_trees es of Inl err \<Rightarrow> Inl err | Inr ts \<Rightarrow> Inr (t # ts)))"

text \<open>\<^verbatim>\<open>a.item((0, 0))\<close> of a two-dimensional array given as a list of rows.\<close>

fun item00 :: "real list list \<Rightarrow> pyerr + real" where
  "item00 ((v # r) # rs) = Inr v"
| "item00 rs = Inl IndexError"

text \<open>\<^verbatim>\<open>"\n".join(lines)\<close>.\<close>

fun join_lines :: "string list \<Rightarrow> string" where
  "join_lines [] = []"
| "join_lines [l] = l"
| "join_lines (l # ls) = l @ [CHR 0x0A] @ join_lines ls"

text \<open>
  The three \<^verbatim>\<open>isinstance\<close> blocks of \<^verbatim>\<open>_build\<close>: they set \<open>n_features\<close> and \<open>lines\<close>,
  both \<^verbatim>\<open>None\<close> at first. The classes are disjoint, so exactly one block runs, or none.
\<close>

fun build_lines ::
  "env \<Rightarrow> model \<Rightarrow> world \<Rightarrow> (pyerr + nat option \<times> string list option) \<times> world" where
  "build_lines env (DecisionTreeRegressor nm n_out n_cls t nf) w =
     (case t of
        None \<Rightarrow> (Inl TypeError, w)
      | Some tr \<Rightarrow>
          (let w1 = log_call (Call_code_gen_tree tr) w in
           case cg_code_gen_tree env tr of
             Inl err \<Rightarrow> (Inl err, w1)
           | Inr ls \<Rightarrow> (Inr (nf, Some ls), w1)))"
| "build_lines env (GradientBoostingRegressor nm es lr nf idf) w =
     (case item00 (idf [replicate nf 0]) of
        Inl err \<Rightarrow> (Inl err, w)
      | Inr initial_value \<Rightarrow>
          (case member_trees es of
             Inl err \<Rightarrow> (Inl err, w)
           | Inr trees \<Rightarrow>
               (let w1 = log_call (Call_code_gen_ensemble trees lr initial_value) w in
                case cg_code_gen_ensemble env trees lr initial_value of
                  Inl err \<Rightarrow> (Inl err, w1)
                | Inr ls \<Rightarrow> (Inr (Some nf, Some ls), w1))))"
| "build_lines env (ForestRegressor nm es n nf) w =
     (case member_trees es of
        Inl err \<Rightarrow> (Inl err, w)
      | Inr trees \<Rightarrow>
          if n = 0 then (Inl ZeroDivisionError, w)
          else
            (let w1 = log_call (Call_code_gen_ensemble trees (1 / real_of_int n) 0) w in
             case cg_code_gen_ensemble env trees (1 / real_of_int n) 0 of
               Inl err \<Rightarrow> (Inl err, w1)
             | Inr ls \<Rightarrow> (Inr (Some nf, Some ls), w1)))"
| "build_lines env (Other nm) w = (Inr (None, None), w)"

text \<open>
  \<^verbatim>\<open>_build\<close>: the compilability check, the dispatch, the two assertions, then the
  compilation pipeline and the loader. Paths and names are ASCII, so \<^verbatim>\<open>.encode("ascii")\<close>
  leaves them as they are.
\<close>

definition build :: "env \<Rightarrow> model \<Rightarrow> world \<Rightarrow> (pyerr + predictor) \<times> world" where
  "build env clf w =
     (if \<not> truthy (compilable clf) then (Inl (ValueError_cannot_compile (class_name clf)), w)
      else
        case build_lines env clf w of
          (Inl err, w1) \<Rightarrow> (Inl err, w1)
        | (Inr (None, _), w1) \<Rightarrow> (Inl AssertionError, w1)
        | (Inr (Some nf, None), w1) \<Rightarrow> (Inl AssertionError, w1)
        | (Inr (Some nf, Some ls), w1) \<Rightarrow>
            (let code = join_lines ls;
                 w2 = log_call (Call_compile_code_to_object code) w1
             in case cg_compile_code_to_object env code (files w2) of
                  (Inl err, fs) \<Rightarrow> (Inl err, w2\<lparr>files := fs\<rparr>)
                | (Inr so, fs) \<Rightarrow>
                    (case CompiledPredictor env so (cg_EVALUATE_FN_NAME env) (w2\<lparr>files := fs\<rparr>) of
                       (Inl err, w3) \<Rightarrow> (Inl err, w3)
                     | (Inr ev, w3) \<Rightarrow>
                         (Inr \<lparr>self_n_features = PyInt (int nf), self_evaluator = ev,
                               self_so_f = so\<rparr>, w3))))"

text \<open>
  \<^verbatim>\<open>__getstate__\<close>: a dictionary with the two keys \<^verbatim>\<open>n_features\<close> and \<^verbatim>\<open>so_f\<close>, the
  latter holding what \<^verbatim>\<open>open(self._so_f).read()\<close> returns (in Python 2 on POSIX, the
  bytes of the file).
\<close>

definition getstate :: "predictor \<Rightarrow> world \<Rightarrow> pyerr + (string \<times> pyobj) list" where
  "getstate self w =
     (case files w (self_so_f self) of
        None \<Rightarrow> Inl (IOError (self_so_f self))
      | Some content \<Rightarrow>
          Inr [(''n_features'', self_n_features self), (''so_f'', PyStr content)])"

text \<open>\<^verbatim>\<open>state[key]\<close>.\<close>

definition getitem :: "(string \<times> pyobj) list \<Rightarrow> string \<Rightarrow> pyerr + pyobj" where
  "getitem state k = (case map_of state k of None \<Rightarrow> Inl (KeyError k) | Some v \<Rightarrow> Inr v)"

text \<open>
  \<^verbatim>\<open>__setstate__\<close>: a new temporary file (kept, \<^verbatim>\<open>delete=False\<close>) receives the bytes,
  then the fields are set and the entry point \<^verbatim>\<open>cg.EVALUATE_FN_NAME\<close> is resolved
  from that file.
\<close>

definition setstate ::
  "env \<Rightarrow> (string \<times> pyobj) list \<Rightarrow> world \<Rightarrow> (pyerr + predictor) \<times> world" where
  "setstate env state w =
     (let tf = tmp_name env (tmp_seq w);
          w1 = w\<lparr>files := (files w)(tf \<mapsto> []), tmp_seq := Suc (tmp_seq w)\<rparr>
      in case getitem state ''so_f'' of
           Inl err \<Rightarrow> (Inl err, w1)
         | Inr (PyStr bytes) \<Rightarrow>
             (let w2 = w1\<lparr>files := (files w1)(tf \<mapsto> bytes)\<rparr> in
              case getitem state ''n_features'' of
                Inl err \<Rightarrow> (Inl err, w2)
              | Inr nf \<Rightarrow>
                  (case CompiledPredictor env tf (cg_EVALUATE_FN_NAME env) w2 of
                     (Inl err, w3) \<Rightarrow> (Inl err, w3)
                   | (Inr ev, w3) \<Rightarrow>
                       (Inr \<lparr>self_n_features = nf, self_evaluator = ev, self_so_f = tf\<rparr>, w3)))
         | Inr _ \<Rightarrow> (Inl TypeError, w1))"

text \<open>
  \<^verbatim>\<open>predict\<close>: three checks in the order of the source, then the allocation of the
  result and the native batch call. The predictor is threaded through as state.
\<close>

definition predict ::
  "env \<Rightarrow> ndarray \<Rightarrow> predictor \<times> world \<Rightarrow> (pyerr + nat) \<times> predictor \<times> world" where
  "predict env X sw =
     (case sw of (self, w) \<Rightarrow>
        if dtype X \<noteq> DTYPE env then (Inl (ValueError_dtype (dtype X) (DTYPE env)), self, w)
        else if length (shape X) \<noteq> 2 then (Inl (ValueError_ndim (shape X)), self, w)
        else
          (let n_samples = shape X ! 0; n_feat = shape X ! 1 in
           if self_n_features self \<noteq> PyInt (int n_feat)
           then (Inl (ValueError_n_features (self_n_features self) n_feat), self, w)
           else
             (case np_empty n_samples (DTYPE env) w of
                (result, w1) \<Rightarrow>
                  (case evaluator_predict (self_evaluator self) X result w1 of
                     (r, w2) \<Rightarrow> (r, self, w2)))))"

section \<open>The code generator and the module it yields\<close>

text \<open>
  Modelled from the spec: the code generator \<^verbatim>\<open>code_gen\<close> (imported as \<^verbatim>\<open>cg\<close>) is not
  among the sources. The generated source text is kept as its syntax tree. For one tree
  the generator emits a function of nested conditionals: at an internal node it compares
  \<^verbatim>\<open>x[feature] <= threshold\<close> and continues with the code of the left child if the
  comparison holds, of the right child otherwise; at a leaf it returns the value. For an
  ensemble it emits one function per tree and a top-level function that computes
  \<^verbatim>\<open>initial_value + weight * sum(tree_i(x))\<close>. The entry point has a fixed name.
\<close>

datatype stmt = Return real | IfLe int real stmt stmt

datatype symbol = EVALUATE_FN | TREE_FN nat

datatype body = Branches stmt | Weighted_sum real real "symbol list"

type_synonym source = "(symbol \<times> body) list"

text \<open>
  Modelled from the spec: a node is inlined into its parent's branch, so the nesting depth
  of the emitted code is the depth of the tree. The first argument bounds that depth; a
  child id outside the node array, or a path longer than the bound, is a structural error.
\<close>

fun gen_node :: "nat \<Rightarrow> tree_ir \<Rightarrow> nat \<Rightarrow> pyerr + stmt" where
  "gen_node 0 t n = Inl StructuralError"
| "gen_node (Suc k) t n =
     (if length t \<le> n then Inl StructuralError
      else
        (let nd = t ! n in
         if is_leaf nd then Inr (Return (nvalue nd))
         else
           (case gen_node k t (left nd) of
              Inl e \<Rightarrow> Inl e
            | Inr l \<Rightarrow>
                (case gen_node k t (right nd) of
                   Inl e \<Rightarrow> Inl e
                 | Inr r \<Rightarrow> Inr (IfLe (feature nd) (threshold nd) l r)))))"

text \<open>
  The code of a whole tree starts at the root, node 0. A path without a repeated node has
  at most as many nodes as the array, so that is the bound.
\<close>

definition tree_function :: "tree_ir \<Rightarrow> pyerr + stmt" where
  "tree_function t = gen_node (length t) t 0"

definition code_gen_tree :: "tree_ir \<Rightarrow> pyerr + source" where
  "code_gen_tree t =
     (case tree_function t of
        Inl e \<Rightarrow> Inl e
      | Inr s \<Rightarrow> Inr [(EVALUATE_FN, Branches s)])"

fun gen_trees :: "nat \<Rightarrow> tree_ir list \<Rightarrow> pyerr + source" where
  "gen_trees i [] = Inr []"
| "gen_trees i (t # ts) =
     (case tree_function t of
        Inl e \<Rightarrow> Inl e
      | Inr s \<Rightarrow>
          (case gen_trees (Suc i) ts of
             Inl e \<Rightarrow> Inl e
           | Inr fs \<Rightarrow> Inr ((TREE_FN i, Branches s) # fs)))"

definition code_gen_ensemble :: "tree_ir list \<Rightarrow> real \<Rightarrow> real \<Rightarrow> pyerr + source" where
  "code_gen_ensemble trees weight initial_value =
     (case gen_trees 0 trees of
        Inl e \<Rightarrow> Inl e
      | Inr fs \<Rightarrow>
          Inr (fs @ [(EVALUATE_FN,
                      Weighted_sum initial_value weight (map TREE_FN [0..<length trees]))]))"

text \<open>
  Modelled from the spec: what the compiled module computes on one feature vector. A read
  outside the vector is an error here (the native code has no defined behaviour there).
\<close>

definition feature_value :: "real list \<Rightarrow> int \<Rightarrow> pyerr + real" where
  "feature_value x f = (if 0 \<le> f \<and> nat f < length x then Inr (x ! nat f) else Inl IndexError)"

fun exec :: "stmt \<Rightarrow> real list \<Rightarrow> pyerr + real" where
  "exec (Return v) x = Inr v"
| "exec (IfLe f th l r) x =
     (case feature_value x f of
        Inl e \<Rightarrow> Inl e
      | Inr v \<Rightarrow> if v \<le> th then exec l x else exec r x)"

definition call_tree :: "source \<Rightarrow> real list \<Rightarrow> symbol \<Rightarrow> pyerr + real" where
  "call_tree src x fname =
     (case map_of src fname of
        Some (Branches s) \<Rightarrow> exec s x
      | _ \<Rightarrow> Inl UndefinedSymbol)"

fun sum_calls :: "source \<Rightarrow> real list \<Rightarrow> symbol list \<Rightarrow> pyerr + real" where
  "sum_calls src x [] = Inr 0"
| "sum_calls src x (fname # fnames) =
     (case call_tree src x fname of
        Inl e \<Rightarrow> Inl e
      | Inr v \<Rightarrow> (case sum_calls src x fnames of Inl e \<Rightarrow> Inl e | Inr r \<Rightarrow> Inr (v + r)))"

definition evaluate :: "source \<Rightarrow> real list \<Rightarrow> pyerr + real" where
  "evaluate src x =
     (case map_of src EVALUATE_FN of
        None \<Rightarrow> Inl UndefinedSymbol
      | Some (Branches s) \<Rightarrow> exec s x
      | Some (Weighted_sum initial_value weight fnames) \<Rightarrow>
          (case sum_calls src x fnames of
             Inl e \<Rightarrow> Inl e
           | Inr s \<Rightarrow> Inr (initial_value + weight * s)))"

section \<open>The reference semantics: walking the tree\<close>

text \<open>
  The recursive walk over the node array that the compiled code has to agree with: at an
  internal node go left if \<^verbatim>\<open>x[feature] <= threshold\<close>, else right; at a leaf return
  its value. The first argument bounds the number of nodes visited.
\<close>

fun walk :: "nat \<Rightarrow> tree_ir \<Rightarrow> real list \<Rightarrow> nat \<Rightarrow> pyerr + real" where
  "walk 0 t x n = Inl StructuralError"
| "walk (Suc k) t x n =
     (if length t \<le> n then Inl StructuralError
      else
        (let nd = t ! n in
         if is_leaf nd then Inr (nvalue nd)
         else
           (case feature_value x (feature nd) of
              Inl e \<Rightarrow> Inl e
            | Inr v \<Rightarrow> if v \<le> threshold nd then walk k t x (left nd)
                        else walk k t x (right nd))))"

definition tree_walk :: "tree_ir \<Rightarrow> real list \<Rightarrow> pyerr + real" where
  "tree_walk t x = walk (length t) t x 0"

text \<open>Every feature index used at an internal node lies inside the feature vector.\<close>

definition features_in_range :: "tree_ir \<Rightarrow> real list \<Rightarrow> bool" where
  "features_in_range t x =
     list_all (\<lambda>nd. is_leaf nd \<or> (0 \<le> feature nd \<and> nat (feature nd) < length x)) t"

section \<open>The supported variants, in the words of the specification\<close>

text \<open>
  A single tree regressor with one output, one class and a fitted tree, or a boosted or
  forest ensemble that is non-empty and all of whose members are supported.
\<close>

fun supported :: "model \<Rightarrow> bool" where
  "supported (DecisionTreeRegressor nm n_out n_cls t nf) =
     (n_out = Some 1 \<and> n_cls = Some 1 \<and> t \<noteq> None)"
| "supported (GradientBoostingRegressor nm es lr nf idf) =
     (es \<noteq> [] \<and> list_all supported es)"
| "supported (ForestRegressor nm es n nf) = (es \<noteq> [] \<and> list_all supported es)"
| "supported (Other nm) = False"

text \<open>The checks of \<^verbatim>\<open>predict\<close> as one condition on the input.\<close>

definition valid_input :: "env \<Rightarrow> predictor \<Rightarrow> ndarray \<Rightarrow> bool" where
  "valid_input env self X =
     (dtype X = DTYPE env \<and> length (shape X) = 2 \<and>
      self_n_features self = PyInt (int (shape X ! 1)))"

text \<open>The calls that go to the code generator.\<close>

fun is_code_gen :: "event \<Rightarrow> bool" where
  "is_code_gen (Call_code_gen_tree t) = True"
| "is_code_gen (Call_code_gen_ensemble ts weight initial_value) = True"
| "is_code_gen e = False"

section \<open>A concrete scenario\<close>

text \<open>
  The depth-1 tree of the specification: feature 0, threshold 0.5, left leaf 1.0, right
  leaf 2.0; the function a module compiled from it exports; an environment whose compiler
  writes the module to a fixed path; one whose compiler is missing.
\<close>

definition scenario_tree :: tree_ir where
  "scenario_tree =
     [\<lparr>feature = 0, threshold = 1 / 2, left = 1, right = 2, nvalue = 0, is_leaf = False\<rparr>,
      \<lparr>feature = - 2, threshold = - 2, left = 0, right = 0, nvalue = 1, is_leaf = True\<rparr>,
      \<lparr>feature = - 2, threshold = - 2, left = 0, right = 0, nvalue = 2, is_leaf = True\<rparr>]"

definition scenario_fn :: "real list \<Rightarrow> real" where
  "scenario_fn x = (case x of [] \<Rightarrow> 0 | v # _ \<Rightarrow> if v \<le> 1 / 2 then 1 else 2)"

definition scenario_env :: env where
  "scenario_env =
     \<lparr>cg_code_gen_tree = (\<lambda>t. Inr [''float evaluate(float* f) {'', ''}'']),
      cg_code_gen_ensemble = (\<lambda>ts weight initial_value. Inr [''float evaluate(float* f) {'', ''}'']),
      cg_compile_code_to_object = (\<lambda>code fs. (Inr ''/tmp/model.so'', fs(''/tmp/model.so'' \<mapsto> ''ELF''))),
      cg_EVALUATE_FN_NAME = ''evaluate'',
      dlsym = (\<lambda>bytes name. if bytes = ''ELF'' \<and> name = ''evaluate'' then Inr scenario_fn
                             else Inl (LoadError name)),
      DTYPE = Float32,
      tmp_name = (\<lambda>n. ''/tmp/tmp'' @ replicate n (CHR ''x''))\<rparr>"

definition no_compiler_env :: env where
  "no_compiler_env =
     scenario_env\<lparr>cg_compile_code_to_object :=
       (\<lambda>code fs. (Inl (CompileError ''compiler not found''), fs))\<rparr>"

definition empty_world :: world where
  "empty_world = \<lparr>files = Map.empty, tmp_seq = 0, arrays = [], trace = []\<rparr>"

definition scenario_model :: model where
  "scenario_model =
     DecisionTreeRegressor ''DecisionTreeRegressor'' (Some 1) (Some 1) (Some scenario_tree) (Some 1)"

definition scenario_forest :: model where
  "scenario_forest =
     ForestRegressor ''RandomForestRegressor'' [scenario_model, scenario_model] 2 1"

definition scenario_predictor :: predictor where
  "scenario_predictor =
     \<lparr>self_n_features = PyInt 1, self_evaluator = Evaluator scenario_fn,
      self_so_f = ''/tmp/model.so''\<rparr>"

definition scenario_X :: ndarray where
  "scenario_X = \<lparr>dtype = Float32, shape = [3, 1], data = [4 / 10, 5 / 10, 6 / 10]\<rparr>"

text \<open>
  The reading of the persisted form in the specification: the metadata holds the entry
  point name.
\<close>

definition records_entry_point :: "env \<Rightarrow> (string \<times> pyobj) list \<Rightarrow> bool" where
  "records_entry_point env state = (PyStr (cg_EVALUATE_FN_NAME env) \<in> set (map snd state))"

section \<open>The invariant of the Tree IR\<close>

text \<open>
  Node 0 is the root, every internal node has its two children inside the node array, and
  there is no cycle. The absence of cycles is witnessed by a rank \<open>r\<close> on node ids that
  decreases from every internal node to each of its children.
\<close>

definition tree_ok :: "(nat \<Rightarrow> nat) \<Rightarrow> tree_ir \<Rightarrow> bool" where
  "tree_ok r t =
     (t \<noteq> [] \<and>
      list_all (\<lambda>n. is_leaf (t ! n) \<or>
                  (left (t ! n) < length t \<and> right (t ! n) < length t \<and>
                   r (left (t ! n)) < r n \<and> r (right (t ! n)) < r n))
        [0..<length t])"

section \<open>The descriptor the facade extracts from a model\<close>

text \<open>
  What \<^verbatim>\<open>_build\<close> reads off the model before it calls the code generator: one tree, or
  the trees of the members with a weight and an initial value. Reading it fails where
  the attribute access, the division or the item access of the source fails.
\<close>

datatype descriptor = Single_tree tree_ir | Ensemble "tree_ir list" real real

fun extract_descriptor :: "model \<Rightarrow> pyerr + descriptor" where
  "extract_descriptor (DecisionTreeRegressor nm n_out n_cls t nf) =
     (case t of None \<Rightarrow> Inl TypeError | Some tr \<Rightarrow> Inr (Single_tree tr))"
| "extract_descriptor (GradientBoostingRegressor nm es lr nf idf) =
     (case item00 (idf [replicate nf 0]) of
        Inl err \<Rightarrow> Inl err
      | Inr initial_value \<Rightarrow>
          (case member_trees es of
             Inl err \<Rightarrow> Inl err
           | Inr trees \<Rightarrow> Inr (Ensemble trees lr initial_value)))"
| "extract_descriptor (ForestRegressor nm es n nf) =
     (case member_trees es of
        Inl err \<Rightarrow> Inl err
      | Inr trees \<Rightarrow>
          if n = 0 then Inl ZeroDivisionError
          else Inr (Ensemble trees (1 / real_of_int n) 0))"
| "extract_descriptor (Other nm) = Inl (AttributeError ''tree_'')"

text \<open>The feature count the model has recorded.\<close>

fun recorded_n_features :: "model \<Rightarrow> nat option" where
  "recorded_n_features (DecisionTreeRegressor nm n_out n_cls t nf) = nf"
| "recorded_n_features (GradientBoostingRegressor nm es lr nf idf) = Some nf"
| "recorded_n_features (ForestRegressor nm es n nf) = Some nf"
| "recorded_n_features (Other nm) = None"

text \<open>The call to the environment's code generator that a descriptor stands for.\<close>

fun generate :: "env \<Rightarrow> descriptor \<Rightarrow> pyerr + string list" where
  "generate env (Single_tree t) = cg_code_gen_tree env t"
| "generate env (Ensemble ts weight initial_value) =
     cg_code_gen_ensemble env ts weight initial_value"

fun generator_call :: "descriptor \<Rightarrow> event" where
  "generator_call (Single_tree t) = Call_code_gen_tree t"
| "generator_call (Ensemble ts weight initial_value) =
     Call_code_gen_ensemble ts weight initial_value"

section \<open>The native toolchain and the generated code\<close>

text \<open>
  What is required of the environment for one call of the code generator. \<open>emitted\<close> is
  what the environment's generator returns and \<open>modelled\<close> what the modelled generator
  returns for the same arguments. If the modelled generator emits the code \<open>src\<close>, then
  the environment's generator returns lines, the compiler turns them into a module file,
  and the entry point of that module computes what \<open>src\<close> computes, on every feature
  vector on which \<open>src\<close> has a result.
\<close>

definition toolchain_implements ::
  "env \<Rightarrow> (string \<rightharpoonup> string) \<Rightarrow> pyerr + string list \<Rightarrow> pyerr + source \<Rightarrow> bool" where
  "toolchain_implements env fs emitted modelled =
     (\<forall>src. modelled = Inr src \<longrightarrow>
        (\<exists>ls so fs' bytes f.
           emitted = Inr ls \<and>
           cg_compile_code_to_object env (join_lines ls) fs = (Inr so, fs') \<and>
           fs' so = Some bytes \<and>
           dlsym env bytes (cg_EVALUATE_FN_NAME env) = Inr f \<and>
           (\<forall>x v. evaluate src x = Inr v \<longrightarrow> f x = v)))"

section \<open>Further scenarios\<close>

text \<open>
  A second depth-1 tree (feature 0, threshold 0.25, leaves 5.0 and 7.0); a tree that is a
  single leaf; a boosted ensemble of the two trees with learning rate 0.1 and prior 3.0; a
  forest of four trees; an environment whose loader resolves the entry point to what a
  given generated code computes; environments whose generator or loader fails.
\<close>

definition second_tree :: tree_ir where
  "second_tree =
     [\<lparr>feature = 0, threshold = 1 / 4, left = 1, right = 2, nvalue = 0, is_leaf = False\<rparr>,
      \<lparr>feature = - 2, threshold = - 2, left = 0, right = 0, nvalue = 5, is_leaf = True\<rparr>,
      \<lparr>feature = - 2, threshold = - 2, left = 0, right = 0, nvalue = 7, is_leaf = True\<rparr>]"

definition leaf_tree :: tree_ir where
  "leaf_tree =
     [\<lparr>feature = - 2, threshold = - 2, left = 0, right = 0, nvalue = 9, is_leaf = True\<rparr>]"

definition second_model :: model where
  "second_model =
     DecisionTreeRegressor ''DecisionTreeRegressor'' (Some 1) (Some 1) (Some second_tree) (Some 1)"

definition example_boosting :: model where
  "example_boosting =
     GradientBoostingRegressor ''GradientBoostingRegressor'' [scenario_model, second_model]
       (1 / 10) 1 (\<lambda>X. map (\<lambda>r. [3]) X)"

definition example_forest :: model where
  "example_forest =
     ForestRegressor ''RandomForestRegressor''
       [scenario_model, second_model, scenario_model, second_model] 4 1"

definition reference_env :: "source \<Rightarrow> env" where
  "reference_env src =
     scenario_env\<lparr>dlsym :=
       (\<lambda>bytes name.
          if bytes = ''ELF'' \<and> name = ''evaluate''
          then Inr (\<lambda>x. case evaluate src x of Inl e \<Rightarrow> 0 | Inr v \<Rightarrow> v)
          else Inl (LoadError name))\<rparr>"

definition no_generator_env :: env where
  "no_generator_env =
     scenario_env\<lparr>cg_code_gen_tree := (\<lambda>t. Inl StructuralError)\<rparr>"

definition no_module_env :: env where
  "no_module_env =
     scenario_env\<lparr>cg_compile_code_to_object := (\<lambda>code fs. (Inr ''/tmp/model.so'', fs))\<rparr>"

definition no_symbol_env :: env where
  "no_symbol_env =
     scenario_env\<lparr>dlsym := (\<lambda>bytes name. Inl (LoadError name))\<rparr>"

section \<open>Properties of the facade\<close>

lemma compilable_truthy: "truthy (compilable m) = supported m"
proof (induction m)
  case (GradientBoostingRegressor nm es lr nf idf)
  then show ?case by (auto simp: list_all_iff)
next
  case (ForestRegressor nm es n nf)
  then show ?case by (auto simp: list_all_iff)
qed auto

lemma all_truthy: "list_all (\<lambda>e. truthy (compilable e)) es = list_all supported es"
  by (simp add: compilable_truthy)

text \<open>
  C5. For every model, \<^verbatim>\<open>compilable\<close> returns a value without raising, and the value is
  true exactly for the supported variants: a tree regressor with one output, one class and
  a fitted tree, or a non-empty boosted or forest ensemble all of whose members are
  supported, checked recursively. For a supported model the value is \<^verbatim>\<open>True\<close>;
  otherwise it is \<^verbatim>\<open>False\<close>, or the integer \<^verbatim>\<open>0\<close> (which equals \<^verbatim>\<open>False\<close> in Python)
  when the model is an empty ensemble.
\<close>
theorem compilable_supported:
  "truthy (compilable m) = supported m \<and>
   compilable m =
     (if supported m then PyBool True
      else if (is_GradientBoostingRegressor m \<or> is_ForestRegressor m) \<and> estimators m = []
      then PyInt 0 else PyBool False)"
  by (cases m) (simp_all add: all_truthy)

lemma shape_2d: "length (s :: nat list) = 2 \<Longrightarrow> s = [s ! 0, s ! 1]"
  by (cases s; simp) (rename_tac a t, case_tac t; simp)

lemma evaluator_predict_2d:
  assumes "length (shape X) = 2"
  shows "evaluator_predict ev X a w =
     (Inr a, predict_rows ev X (shape X ! 1) a [0..<shape X ! 0] w)"
proof -
  obtain n m where s: "shape X = [n, m]"
    using shape_2d[OF assms] by blast
  show ?thesis by (simp add: evaluator_predict_def s)
qed

lemma predict_rows_frame:
  "files (predict_rows ev X m a is w) = files w \<and>
   tmp_seq (predict_rows ev X m a is w) = tmp_seq w \<and>
   length (arrays (predict_rows ev X m a is w)) = length (arrays w)"
  by (induction "is" arbitrary: w) (simp_all add: Let_def log_call_def)

lemma predict_rows_others:
  "b \<noteq> a \<Longrightarrow> arrays (predict_rows ev X m a is w) ! b = arrays w ! b"
  by (induction "is" arbitrary: w) (simp_all add: Let_def log_call_def)

lemma predict_rows_header:
  "a < length (arrays w) \<Longrightarrow>
   dtype (arrays (predict_rows ev X m a is w) ! a) = dtype (arrays w ! a) \<and>
   shape (arrays (predict_rows ev X m a is w) ! a) = shape (arrays w ! a) \<and>
   length (data (arrays (predict_rows ev X m a is w) ! a)) = length (data (arrays w ! a))"
  by (induction "is" arbitrary: w) (simp_all add: Let_def log_call_def)

lemma predict_rows_data:
  "a < length (arrays w) \<Longrightarrow> j < length (data (arrays w ! a)) \<Longrightarrow> distinct is \<Longrightarrow>
   data (arrays (predict_rows ev X m a is w) ! a) ! j =
     (if j \<in> set is then func ev (row X m j) else data (arrays w ! a) ! j)"
proof (induction "is" arbitrary: w)
  case Nil
  then show ?case by simp
next
  case (Cons i "is")
  let ?w2 = "(log_call (Call_native (row X m i)) w)
        \<lparr>arrays := (arrays (log_call (Call_native (row X m i)) w))
           [a := (arrays w ! a)\<lparr>data := (data (arrays w ! a))[i := func ev (row X m i)]\<rparr>]\<rparr>"
  have a: "a < length (arrays ?w2)" using Cons.prems by (simp add: log_call_def)
  have d: "data (arrays ?w2 ! a) = (data (arrays w ! a))[i := func ev (row X m i)]"
    using Cons.prems by (simp add: log_call_def)
  have j: "j < length (data (arrays ?w2 ! a))" using Cons.prems d by simp
  have "distinct is" "i \<notin> set is" using Cons.prems by simp_all
  from Cons.IH[OF a j \<open>distinct is\<close>] d \<open>i \<notin> set is\<close> Cons.prems(2)
  show ?case by (auto simp: Let_def)
qed


lemma predict_rows_trace:
  "trace (predict_rows ev X m a is w) = trace w @ map (\<lambda>i. Call_native (row X m i)) is"
  by (induction "is" arbitrary: w) (simp_all add: Let_def log_call_def)

lemma predict_valid:
  assumes "valid_input env self X"
  shows "predict env X (self, w) =
     (Inr (length (arrays w)), self,
      predict_rows (self_evaluator self) X (shape X ! 1) (length (arrays w)) [0..<shape X ! 0]
        (snd (np_empty (shape X ! 0) (DTYPE env) w)))"
proof -
  have l: "length (shape X) = 2" using assms by (simp add: valid_input_def)
  show ?thesis
    using assms
    by (simp add: predict_def valid_input_def Let_def evaluator_predict_2d[OF l] np_empty_def)
qed

text \<open>
  C6. If the element type of \<open>X\<close> is not \<^verbatim>\<open>DTYPE\<close>, or \<open>X\<close> is not two-dimensional, or
  its second dimension differs from the recorded feature count, \<^verbatim>\<open>predict\<close> raises a
  \<^verbatim>\<open>ValueError\<close> that carries the mismatched values and leaves the world as it was, so
  no native call has been made; otherwise it raises nothing.
\<close>
theorem predict_rejects_invalid_input:
  "(\<not> valid_input env self X \<longrightarrow>
      (\<exists>e. predict env X (self, w) = (Inl e, self, w) \<and>
           e \<in> {ValueError_dtype (dtype X) (DTYPE env), ValueError_ndim (shape X),
                  ValueError_n_features (self_n_features self) (shape X ! 1)})) \<and>
   (valid_input env self X \<longrightarrow> (\<exists>a w'. predict env X (self, w) = (Inr a, self, w')))"
proof (intro conjI impI)
  assume "\<not> valid_input env self X"
  then show "\<exists>e. predict env X (self, w) = (Inl e, self, w) \<and>
           e \<in> {ValueError_dtype (dtype X) (DTYPE env), ValueError_ndim (shape X),
                  ValueError_n_features (self_n_features self) (shape X ! 1)}"
    by (auto simp: predict_def valid_input_def Let_def)
next
  assume "valid_input env self X"
  then show "\<exists>a w'. predict env X (self, w) = (Inr a, self, w')"
    by (simp add: predict_valid)
qed

text \<open>
  C9. The checks of \<^verbatim>\<open>predict\<close> run in a fixed order: a wrong element type gives the
  type error whatever the shape is; with the right type, a wrong number of dimensions
  gives the dimension error; the feature-count error is only raised for a two-dimensional
  input of the right type.
\<close>
theorem predict_check_order:
  "(dtype X \<noteq> DTYPE env \<longrightarrow>
      predict env X (self, w) = (Inl (ValueError_dtype (dtype X) (DTYPE env)), self, w)) \<and>
   (dtype X = DTYPE env \<and> length (shape X) \<noteq> 2 \<longrightarrow>
      predict env X (self, w) = (Inl (ValueError_ndim (shape X)), self, w)) \<and>
   (dtype X = DTYPE env \<and> length (shape X) = 2 \<and>
    self_n_features self \<noteq> PyInt (int (shape X ! 1)) \<longrightarrow>
      predict env X (self, w) =
        (Inl (ValueError_n_features (self_n_features self) (shape X ! 1)), self, w)) \<and>
   (\<forall>a b r. predict env X (self, w) = (Inl (ValueError_n_features a b), r) \<longrightarrow>
      dtype X = DTYPE env \<and> length (shape X) = 2)"
proof (intro conjI impI allI)
  fix a b r
  assume e: "predict env X (self, w) = (Inl (ValueError_n_features a b), r)"
  have "valid_input env self X \<Longrightarrow> False"
    using e by (simp add: predict_valid)
  with e show "dtype X = DTYPE env" "length (shape X) = 2"
    by (auto simp: predict_def valid_input_def Let_def split: if_splits)
qed (simp_all add: predict_def Let_def)

text \<open>
  C10. On a valid input \<^verbatim>\<open>predict\<close> returns a newly allocated array (its index was not
  in use), of length \<^verbatim>\<open>n_samples\<close> and element type \<^verbatim>\<open>DTYPE\<close>, filled row by row by
  the evaluation function; the arrays that existed before, the files and the predictor
  itself are unchanged.
\<close>
theorem predict_allocates_fresh_result:
  assumes "valid_input env self X"
  shows "\<exists>w'. predict env X (self, w) = (Inr (length (arrays w)), self, w') \<and>
     length (arrays w') = Suc (length (arrays w)) \<and>
     take (length (arrays w)) (arrays w') = arrays w \<and>
     dtype (arrays w' ! length (arrays w)) = DTYPE env \<and>
     shape (arrays w' ! length (arrays w)) = [shape X ! 0] \<and>
     data (arrays w' ! length (arrays w)) =
       map (\<lambda>i. func (self_evaluator self) (row X (shape X ! 1) i)) [0..<shape X ! 0] \<and>
     files w' = files w \<and> tmp_seq w' = tmp_seq w"
proof -
  let ?a = "length (arrays w)"
  let ?n = "shape X ! 0"
  let ?w1 = "snd (np_empty ?n (DTYPE env) w)"
  let ?w' = "predict_rows (self_evaluator self) X (shape X ! 1) ?a [0..<?n] ?w1"
  have a1: "?a < length (arrays ?w1)" by (simp add: np_empty_def)
  have new: "arrays ?w1 ! ?a = \<lparr>dtype = DTYPE env, shape = [?n], data = replicate ?n 0\<rparr>"
    by (simp add: np_empty_def)
  have len: "length (arrays ?w') = Suc ?a"
    by (simp add: predict_rows_frame np_empty_def)
  have old: "take ?a (arrays ?w') = arrays w"
  proof (rule nth_equalityI)
    show "length (take ?a (arrays ?w')) = length (arrays w)" using len by simp
  next
    fix b assume "b < length (take ?a (arrays ?w'))"
    then have b: "b < ?a" by simp
    then have "arrays ?w' ! b = arrays ?w1 ! b" by (simp add: predict_rows_others)
    also have "\<dots> = arrays w ! b" using b by (simp add: np_empty_def nth_append)
    finally show "take ?a (arrays ?w') ! b = arrays w ! b" using b by simp
  qed
  have hd: "dtype (arrays ?w' ! ?a) = DTYPE env" "shape (arrays ?w' ! ?a) = [?n]"
    "length (data (arrays ?w' ! ?a)) = ?n"
    using predict_rows_header[OF a1, of "self_evaluator self" X "shape X ! 1" "[0..<?n]"] new
    by simp_all
  have dat: "data (arrays ?w' ! ?a) =
       map (\<lambda>i. func (self_evaluator self) (row X (shape X ! 1) i)) [0..<?n]"
  proof (rule nth_equalityI)
    show "length (data (arrays ?w' ! ?a)) =
      length (map (\<lambda>i. func (self_evaluator self) (row X (shape X ! 1) i)) [0..<?n])"
      using hd(3) by simp
  next
    fix j assume "j < length (data (arrays ?w' ! ?a))"
    then have j: "j < ?n" using hd(3) by simp
    then have j1: "j < length (data (arrays ?w1 ! ?a))" using new by simp
    show "data (arrays ?w' ! ?a) ! j =
      map (\<lambda>i. func (self_evaluator self) (row X (shape X ! 1) i)) [0..<?n] ! j"
      using predict_rows_data[OF a1 j1, of "[0..<?n]" "self_evaluator self" X "shape X ! 1"] j
      by simp
  qed
  have fr: "files ?w' = files w" "tmp_seq ?w' = tmp_seq w"
    by (simp_all add: predict_rows_frame np_empty_def)
  show ?thesis
    using predict_valid[OF assms, of w] len old hd(1,2) dat fr by blast
qed


theorem compilable_supported_witness:
  "truthy (compilable scenario_forest) = supported scenario_forest \<and>
   compilable scenario_forest = PyBool True \<and>
   compilable (ForestRegressor ''RandomForestRegressor'' [] 10 0) = PyInt 0"
  using compilable_supported[of scenario_forest]
    compilable_supported[of "ForestRegressor ''RandomForestRegressor'' [] 10 0"]
  by (simp add: scenario_forest_def scenario_model_def)

theorem predict_rejects_invalid_input_witness:
  "\<not> valid_input scenario_env scenario_predictor (scenario_X\<lparr>shape := [3]\<rparr>) \<and>
   (\<exists>e. predict scenario_env (scenario_X\<lparr>shape := [3]\<rparr>) (scenario_predictor, empty_world) =
          (Inl e, scenario_predictor, empty_world) \<and>
        e \<in> {ValueError_dtype (dtype (scenario_X\<lparr>shape := [3]\<rparr>)) (DTYPE scenario_env),
               ValueError_ndim (shape (scenario_X\<lparr>shape := [3]\<rparr>)),
               ValueError_n_features (self_n_features scenario_predictor)
                 (shape (scenario_X\<lparr>shape := [3]\<rparr>) ! 1)}) \<and>
   valid_input scenario_env scenario_predictor scenario_X \<and>
   (\<exists>a w'. predict scenario_env scenario_X (scenario_predictor, empty_world) =
      (Inr a, scenario_predictor, w'))"
proof -
  have h1: "\<not> valid_input scenario_env scenario_predictor (scenario_X\<lparr>shape := [3]\<rparr>)"
    by (simp add: valid_input_def scenario_X_def)
  have h2: "valid_input scenario_env scenario_predictor scenario_X"
    by (simp add: valid_input_def scenario_X_def scenario_env_def scenario_predictor_def)
  show ?thesis
    using h1 h2
      predict_rejects_invalid_input[of scenario_env scenario_predictor
        "scenario_X\<lparr>shape := [3]\<rparr>" empty_world]
      predict_rejects_invalid_input[of scenario_env scenario_predictor scenario_X empty_world]
    by blast
qed

theorem predict_check_order_witness:
  "predict scenario_env (scenario_X\<lparr>dtype := Float64, shape := [3]\<rparr>)
     (scenario_predictor, empty_world) =
     (Inl (ValueError_dtype Float64 Float32), scenario_predictor, empty_world) \<and>
   predict scenario_env (scenario_X\<lparr>shape := [3]\<rparr>) (scenario_predictor, empty_world) =
     (Inl (ValueError_ndim [3]), scenario_predictor, empty_world) \<and>
   predict scenario_env (scenario_X\<lparr>shape := [1, 3]\<rparr>) (scenario_predictor, empty_world) =
     (Inl (ValueError_n_features (PyInt 1) 3), scenario_predictor, empty_world)"
  using predict_check_order[of "scenario_X\<lparr>dtype := Float64, shape := [3]\<rparr>" scenario_env
      scenario_predictor empty_world]
    predict_check_order[of "scenario_X\<lparr>shape := [3]\<rparr>" scenario_env
      scenario_predictor empty_world]
    predict_check_order[of "scenario_X\<lparr>shape := [1, 3]\<rparr>" scenario_env
      scenario_predictor empty_world]
  by (simp add: scenario_X_def scenario_env_def scenario_predictor_def)

theorem predict_allocates_fresh_result_witness:
  "valid_input scenario_env scenario_predictor scenario_X \<and>
   (\<exists>w'. predict scenario_env scenario_X (scenario_predictor, empty_world) =
       (Inr 0, scenario_predictor, w') \<and>
     length (arrays w') = 1 \<and>
     dtype (arrays w' ! 0) = Float32 \<and>
     shape (arrays w' ! 0) = [3] \<and>
     data (arrays w' ! 0) = [1, 1, 2])"
proof -
  have h: "valid_input scenario_env scenario_predictor scenario_X"
    by (simp add: valid_input_def scenario_X_def scenario_env_def scenario_predictor_def)
  have r: "map (\<lambda>i. func (self_evaluator scenario_predictor)
             (row scenario_X (shape scenario_X ! 1) i)) [0..<shape scenario_X ! 0] = [1, 1, 2]"
    by (simp add: scenario_X_def scenario_predictor_def scenario_fn_def row_def upt_rec)
  have e: "DTYPE scenario_env = Float32" "shape scenario_X ! 0 = 3" "arrays empty_world = []"
    by (simp_all add: scenario_env_def scenario_X_def empty_world_def)
  from predict_allocates_fresh_result[OF h, of empty_world]
  obtain w' where p: "predict scenario_env scenario_X (scenario_predictor, empty_world) =
       (Inr (length (arrays empty_world)), scenario_predictor, w')"
     "length (arrays w') = Suc (length (arrays empty_world))"
     "dtype (arrays w' ! length (arrays empty_world)) = DTYPE scenario_env"
     "shape (arrays w' ! length (arrays empty_world)) = [shape scenario_X ! 0]"
     "data (arrays w' ! length (arrays empty_world)) =
       map (\<lambda>i. func (self_evaluator scenario_predictor)
             (row scenario_X (shape scenario_X ! 1) i)) [0..<shape scenario_X ! 0]"
    by blast
  show ?thesis using h p r e by auto
qed

section \<open>Properties of \<^verbatim>\<open>_build\<close>\<close>

lemma member_trees_Inr: "member_trees es = Inr ts \<Longrightarrow> map tree es = map Some ts"
proof (induction es arbitrary: ts)
  case Nil
  then show ?case by simp
next
  case (Cons e es)
  then show ?case
    by (cases e rule: member_tree.cases) (auto split: sum.splits)
qed

lemma build_not_compilable:
  "\<not> truthy (compilable clf) \<Longrightarrow>
   build env clf w = (Inl (ValueError_cannot_compile (class_name clf)), w)"
  by (simp add: build_def)

lemma build_lines_frame:
  "build_lines env clf w = (r, w1) \<Longrightarrow>
   files w1 = files w \<and> tmp_seq w1 = tmp_seq w \<and> arrays w1 = arrays w"
  by (cases clf) (auto simp: log_call_def Let_def split: sum.splits option.splits if_splits)

lemma build_trace_after_lines:
  assumes "truthy (compilable clf)" and "build_lines env clf w = (r, w1)"
  shows "\<exists>rest. trace (snd (build env clf w)) = trace w1 @ rest \<and> filter is_code_gen rest = []"
  using assms
  by (auto simp: build_def CompiledPredictor_def log_call_def Let_def
      split: sum.splits prod.splits option.splits)

lemma code_gen_calls_of_build:
  assumes "truthy (compilable clf)" and "build_lines env clf w = (r, w1)"
      and "trace w1 = trace w @ [c]" and "is_code_gen c"
  shows "filter is_code_gen (drop (length (trace w)) (trace (snd (build env clf w)))) = [c]"
proof -
  obtain rest where "trace (snd (build env clf w)) = trace w1 @ rest" "filter is_code_gen rest = []"
    using build_trace_after_lines[OF assms(1,2)] by blast
  then show ?thesis using assms(3,4) by simp
qed

lemma build_stages:
  assumes "truthy (compilable clf)"
      and "build_lines env clf w = (Inr (Some nf, Some ls), w1)"
      and "cg_compile_code_to_object env (join_lines ls) (files w) = (Inr so, fs)"
      and "fs so = Some bytes"
      and "dlsym env bytes (cg_EVALUATE_FN_NAME env) = Inr f"
  shows "build env clf w =
    (Inr \<lparr>self_n_features = PyInt (int nf), self_evaluator = Evaluator f, self_so_f = so\<rparr>,
     log_call (Call_CompiledPredictor so (cg_EVALUATE_FN_NAME env))
       ((log_call (Call_compile_code_to_object (join_lines ls)) w1)\<lparr>files := fs\<rparr>))"
proof -
  have "files w1 = files w" using assms(2) build_lines_frame by blast
  then show ?thesis
    using assms by (simp add: build_def CompiledPredictor_def log_call_def Let_def)
qed

lemma build_lines_descriptor:
  assumes "extract_descriptor clf = Inr d"
  shows "build_lines env clf w =
     (case generate env d of
        Inl e \<Rightarrow> (Inl e, log_call (generator_call d) w)
      | Inr ls \<Rightarrow> (Inr (recorded_n_features clf, Some ls), log_call (generator_call d) w))"
  using assms
  by (cases clf) (auto simp: Let_def split: sum.splits option.splits if_splits)

lemma build_lines_no_descriptor:
  assumes "extract_descriptor clf = Inl e" and "truthy (compilable clf)"
  shows "build_lines env clf w = (Inl e, w)"
  using assms
  by (cases clf) (auto simp: Let_def split: sum.splits option.splits if_splits)

lemma build_generator_fails:
  assumes "truthy (compilable clf)" and "extract_descriptor clf = Inr d"
      and "generate env d = Inl e"
  shows "build env clf w = (Inl e, log_call (generator_call d) w)"
  using assms(1,3) build_lines_descriptor[OF assms(2), of env w]
  by (simp add: build_def)

lemma build_no_feature_count:
  assumes "truthy (compilable clf)" and "extract_descriptor clf = Inr d"
      and "generate env d = Inr ls" and "recorded_n_features clf = None"
  shows "build env clf w = (Inl AssertionError, log_call (generator_call d) w)"
  using assms(1,3,4) build_lines_descriptor[OF assms(2), of env w]
  by (simp add: build_def)

lemma build_lines_generated:
  assumes "extract_descriptor clf = Inr d" and "generate env d = Inr ls"
      and "recorded_n_features clf = Some nf"
  shows "build_lines env clf w = (Inr (Some nf, Some ls), log_call (generator_call d) w)"
  using assms(2,3) build_lines_descriptor[OF assms(1), of env w] by simp

lemma build_compiler_fails:
  assumes "truthy (compilable clf)" and "extract_descriptor clf = Inr d"
      and "generate env d = Inr ls" and "recorded_n_features clf = Some nf"
      and "cg_compile_code_to_object env (join_lines ls) (files w) = (Inl e, fs)"
  shows "build env clf w =
     (Inl e, (log_call (Call_compile_code_to_object (join_lines ls))
                (log_call (generator_call d) w))\<lparr>files := fs\<rparr>)"
  using assms(1,5) build_lines_generated[OF assms(2,3,4), of w]
  by (simp add: build_def log_call_def Let_def)

lemma build_module_missing:
  assumes "truthy (compilable clf)" and "extract_descriptor clf = Inr d"
      and "generate env d = Inr ls" and "recorded_n_features clf = Some nf"
      and "cg_compile_code_to_object env (join_lines ls) (files w) = (Inr so, fs)"
      and "fs so = None"
  shows "fst (build env clf w) = Inl (LoadError so)"
  using assms(1,5,6) build_lines_generated[OF assms(2,3,4), of w]
  by (simp add: build_def CompiledPredictor_def log_call_def Let_def)

lemma build_loader_fails:
  assumes "truthy (compilable clf)" and "extract_descriptor clf = Inr d"
      and "generate env d = Inr ls" and "recorded_n_features clf = Some nf"
      and "cg_compile_code_to_object env (join_lines ls) (files w) = (Inr so, fs)"
      and "fs so = Some bytes" and "dlsym env bytes (cg_EVALUATE_FN_NAME env) = Inl e"
  shows "fst (build env clf w) = Inl e"
  using assms(1,5,6,7) build_lines_generated[OF assms(2,3,4), of w]
  by (simp add: build_def CompiledPredictor_def log_call_def Let_def)

lemma build_all_stages:
  assumes "truthy (compilable clf)" and "extract_descriptor clf = Inr d"
      and "generate env d = Inr ls" and "recorded_n_features clf = Some nf"
      and "cg_compile_code_to_object env (join_lines ls) (files w) = (Inr so, fs)"
      and "fs so = Some bytes" and "dlsym env bytes (cg_EVALUATE_FN_NAME env) = Inr f"
  shows "build env clf w =
    (Inr \<lparr>self_n_features = PyInt (int nf), self_evaluator = Evaluator f, self_so_f = so\<rparr>,
     log_call (Call_CompiledPredictor so (cg_EVALUATE_FN_NAME env))
       ((log_call (Call_compile_code_to_object (join_lines ls))
          (log_call (generator_call d) w))\<lparr>files := fs\<rparr>))"
  by (rule build_stages[OF assms(1) build_lines_generated[OF assms(2,3,4)] assms(5,6,7)])

lemma build_extraction_fails:
  assumes "truthy (compilable clf)" and "extract_descriptor clf = Inl e"
  shows "build env clf w = (Inl e, w)"
  using assms(1) build_lines_no_descriptor[OF assms(2,1), of env w]
  by (simp add: build_def)

lemma build_compiles_generated:
  assumes "truthy (compilable clf)" and "extract_descriptor clf = Inr d"
      and "generate env d = Inr ls" and "recorded_n_features clf = Some nf"
  shows "take 2 (drop (length (trace w)) (trace (snd (build env clf w)))) =
           [generator_call d, Call_compile_code_to_object (join_lines ls)]"
  using assms(1) build_lines_generated[OF assms(2,3,4), of w]
  by (auto simp: build_def CompiledPredictor_def log_call_def Let_def
      split: prod.splits sum.splits option.splits)

lemma build_calls_generator_once:
  assumes "truthy (compilable clf)" and "extract_descriptor clf = Inr d"
  shows "filter is_code_gen (drop (length (trace w)) (trace (snd (build env clf w)))) =
           [generator_call d]"
proof -
  obtain r where bl: "build_lines env clf w = (r, log_call (generator_call d) w)"
    using build_lines_descriptor[OF assms(2), of env w] by (cases "generate env d") auto
  show ?thesis
    by (rule code_gen_calls_of_build[OF assms(1) bl]) (cases d; simp add: log_call_def)+
qed

lemma build_lines_result:
  assumes "extract_descriptor clf = Inr d"
  shows "fst (build_lines env clf w) =
     (case generate env d of
        Inl e \<Rightarrow> Inl e
      | Inr ls \<Rightarrow> Inr (recorded_n_features clf, Some ls))"
  using build_lines_descriptor[OF assms, of env w] by (cases "generate env d") auto

text \<open>
  C3. For a compilable model \<^verbatim>\<open>_build\<close> hands the code generator parameters that depend
  on the variant, and what the generator returns is what it compiles. For a boosted
  ensemble the lines are the result of \<^verbatim>\<open>code_gen_ensemble\<close> on the members' trees, with
  the learning rate as weight and the prior (item (0, 0) of the initial decision function
  on one zero row) as initial value; for a forest they are the result of
  \<^verbatim>\<open>code_gen_ensemble\<close> on the members' trees with weight \<^verbatim>\<open>1.0 / n_estimators\<close> and
  initial value 0; for a single tree they are the result of \<^verbatim>\<open>code_gen_tree\<close> on the
  tree alone, so that neither a weight nor a bias is applied. In each case this is the
  only call to the code generator, and the text given to the compiler is the joined lines.
\<close>
theorem build_passes_ensemble_parameters:
  "(truthy (compilable (GradientBoostingRegressor gnm ges lr gnf idf)) \<and>
    item00 (idf [replicate gnf 0]) = Inr prior \<and> member_trees ges = Inr gts \<longrightarrow>
      map tree ges = map Some gts \<and>
      fst (build_lines env (GradientBoostingRegressor gnm ges lr gnf idf) w) =
        (case cg_code_gen_ensemble env gts lr prior of
           Inl e \<Rightarrow> Inl e
         | Inr ls \<Rightarrow> Inr (Some gnf, Some ls)) \<and>
      filter is_code_gen (drop (length (trace w))
        (trace (snd (build env (GradientBoostingRegressor gnm ges lr gnf idf) w)))) =
        [Call_code_gen_ensemble gts lr prior] \<and>
      (\<forall>ls. cg_code_gen_ensemble env gts lr prior = Inr ls \<longrightarrow>
         take 2 (drop (length (trace w))
           (trace (snd (build env (GradientBoostingRegressor gnm ges lr gnf idf) w)))) =
         [Call_code_gen_ensemble gts lr prior, Call_compile_code_to_object (join_lines ls)])) \<and>
   (truthy (compilable (ForestRegressor fnm fes n fnf)) \<and> n \<noteq> 0 \<and>
    member_trees fes = Inr fts \<longrightarrow>
      map tree fes = map Some fts \<and>
      fst (build_lines env (ForestRegressor fnm fes n fnf) w) =
        (case cg_code_gen_ensemble env fts (1 / real_of_int n) 0 of
           Inl e \<Rightarrow> Inl e
         | Inr ls \<Rightarrow> Inr (Some fnf, Some ls)) \<and>
      filter is_code_gen (drop (length (trace w))
        (trace (snd (build env (ForestRegressor fnm fes n fnf) w)))) =
        [Call_code_gen_ensemble fts (1 / real_of_int n) 0] \<and>
      (\<forall>ls. cg_code_gen_ensemble env fts (1 / real_of_int n) 0 = Inr ls \<longrightarrow>
         take 2 (drop (length (trace w))
           (trace (snd (build env (ForestRegressor fnm fes n fnf) w)))) =
         [Call_code_gen_ensemble fts (1 / real_of_int n) 0,
          Call_compile_code_to_object (join_lines ls)])) \<and>
   (truthy (compilable (DecisionTreeRegressor tnm n_out n_cls (Some t) tnf)) \<longrightarrow>
      fst (build_lines env (DecisionTreeRegressor tnm n_out n_cls (Some t) tnf) w) =
        (case cg_code_gen_tree env t of
           Inl e \<Rightarrow> Inl e
         | Inr ls \<Rightarrow> Inr (tnf, Some ls)) \<and>
      filter is_code_gen (drop (length (trace w))
        (trace (snd (build env (DecisionTreeRegressor tnm n_out n_cls (Some t) tnf) w)))) =
        [Call_code_gen_tree t] \<and>
      (\<forall>ls k. cg_code_gen_tree env t = Inr ls \<and> tnf = Some k \<longrightarrow>
         take 2 (drop (length (trace w))
           (trace (snd (build env (DecisionTreeRegressor tnm n_out n_cls (Some t) tnf) w)))) =
         [Call_code_gen_tree t, Call_compile_code_to_object (join_lines ls)]))"
proof (intro conjI impI allI)
  let ?G = "GradientBoostingRegressor gnm ges lr gnf idf"
  assume a: "truthy (compilable ?G) \<and>
    item00 (idf [replicate gnf 0]) = Inr prior \<and> member_trees ges = Inr gts"
  then have c: "truthy (compilable ?G)" by blast
  from a have d: "extract_descriptor ?G = Inr (Ensemble gts lr prior)" by simp
  from a show "map tree ges = map Some gts" by (simp add: member_trees_Inr)
  show "fst (build_lines env ?G w) =
        (case cg_code_gen_ensemble env gts lr prior of
           Inl e \<Rightarrow> Inl e
         | Inr ls \<Rightarrow> Inr (Some gnf, Some ls))"
    by (rule build_lines_result[OF d, of env w, unfolded generate.simps recorded_n_features.simps])
  show "filter is_code_gen (drop (length (trace w)) (trace (snd (build env ?G w)))) =
        [Call_code_gen_ensemble gts lr prior]"
    using build_calls_generator_once[OF c d, of w env] by simp
  fix ls assume "cg_code_gen_ensemble env gts lr prior = Inr ls"
  then show "take 2 (drop (length (trace w)) (trace (snd (build env ?G w)))) =
         [Call_code_gen_ensemble gts lr prior, Call_compile_code_to_object (join_lines ls)]"
    using build_compiles_generated[OF c d, of env ls gnf w] by simp
next
  let ?F = "ForestRegressor fnm fes n fnf"
  assume a: "truthy (compilable ?F) \<and> n \<noteq> 0 \<and> member_trees fes = Inr fts"
  then have c: "truthy (compilable ?F)" by blast
  from a have d: "extract_descriptor ?F = Inr (Ensemble fts (1 / real_of_int n) 0)" by simp
  from a show "map tree fes = map Some fts" by (simp add: member_trees_Inr)
  show "fst (build_lines env ?F w) =
        (case cg_code_gen_ensemble env fts (1 / real_of_int n) 0 of
           Inl e \<Rightarrow> Inl e
         | Inr ls \<Rightarrow> Inr (Some fnf, Some ls))"
    by (rule build_lines_result[OF d, of env w, unfolded generate.simps recorded_n_features.simps])
  show "filter is_code_gen (drop (length (trace w)) (trace (snd (build env ?F w)))) =
        [Call_code_gen_ensemble fts (1 / real_of_int n) 0]"
    using build_calls_generator_once[OF c d, of w env] by simp
  fix ls assume "cg_code_gen_ensemble env fts (1 / real_of_int n) 0 = Inr ls"
  then show "take 2 (drop (length (trace w)) (trace (snd (build env ?F w)))) =
         [Call_code_gen_ensemble fts (1 / real_of_int n) 0,
          Call_compile_code_to_object (join_lines ls)]"
    using build_compiles_generated[OF c d, of env ls fnf w] by simp
next
  let ?T = "DecisionTreeRegressor tnm n_out n_cls (Some t) tnf"
  assume c: "truthy (compilable ?T)"
  have d: "extract_descriptor ?T = Inr (Single_tree t)" by simp
  show "fst (build_lines env ?T w) =
        (case cg_code_gen_tree env t of
           Inl e \<Rightarrow> Inl e
         | Inr ls \<Rightarrow> Inr (tnf, Some ls))"
    by (rule build_lines_result[OF d, of env w, unfolded generate.simps recorded_n_features.simps])
  show "filter is_code_gen (drop (length (trace w)) (trace (snd (build env ?T w)))) =
        [Call_code_gen_tree t]"
    using build_calls_generator_once[OF c d, of w env] by simp
  fix ls k assume "cg_code_gen_tree env t = Inr ls \<and> tnf = Some k"
  then show "take 2 (drop (length (trace w)) (trace (snd (build env ?T w)))) =
         [Call_code_gen_tree t, Call_compile_code_to_object (join_lines ls)]"
    using build_compiles_generated[OF c d, of env ls k w] by simp
qed

lemma example_member_trees:
  "member_trees [scenario_model, second_model] = Inr [scenario_tree, second_tree]"
  "member_trees [scenario_model, second_model, scenario_model, second_model] =
     Inr [scenario_tree, second_tree, scenario_tree, second_tree]"
  by (simp_all add: scenario_model_def second_model_def)

theorem build_passes_ensemble_parameters_witness:
  "truthy (compilable example_boosting) \<and>
   fst (build_lines scenario_env example_boosting empty_world) =
     Inr (Some 1, Some [''float evaluate(float* f) {'', ''}'']) \<and>
   filter is_code_gen (trace (snd (build scenario_env example_boosting empty_world))) =
     [Call_code_gen_ensemble [scenario_tree, second_tree] (1 / 10) 3] \<and>
   truthy (compilable example_forest) \<and>
   filter is_code_gen (trace (snd (build scenario_env example_forest empty_world))) =
     [Call_code_gen_ensemble [scenario_tree, second_tree, scenario_tree, second_tree] (1 / 4) 0] \<and>
   truthy (compilable second_model) \<and>
   filter is_code_gen (trace (snd (build scenario_env second_model empty_world))) =
     [Call_code_gen_tree second_tree]"
proof -
  have c: "truthy (compilable example_boosting)" "truthy (compilable example_forest)"
    "truthy (compilable second_model)"
    by (simp_all add: example_boosting_def example_forest_def scenario_model_def second_model_def)
  have e: "trace empty_world = []" by (simp add: empty_world_def)
  have i: "item00 ((\<lambda>X. map (\<lambda>r. [3::real]) X) [replicate 1 0]) = Inr 3" by simp
  have g: "cg_code_gen_ensemble scenario_env [scenario_tree, second_tree] (1 / 10) 3 =
      Inr [''float evaluate(float* f) {'', ''}'']"
    by (simp add: scenario_env_def)
  note t = build_passes_ensemble_parameters[where gnm = "''GradientBoostingRegressor''"
        and ges = "[scenario_model, second_model]" and lr = "1 / 10" and gnf = 1
        and idf = "\<lambda>X. map (\<lambda>r. [3]) X" and prior = 3
        and gts = "[scenario_tree, second_tree]" and fnm = "''RandomForestRegressor''"
        and fes = "[scenario_model, second_model, scenario_model, second_model]"
        and n = 4 and fnf = 1
        and fts = "[scenario_tree, second_tree, scenario_tree, second_tree]"
        and tnm = "''DecisionTreeRegressor''" and n_out = "Some 1" and n_cls = "Some 1"
        and t = second_tree and tnf = "Some 1" and w = empty_world and env = scenario_env,
        folded second_model_def, folded example_boosting_def example_forest_def]
  show ?thesis
    using c example_member_trees i g t by (simp add: e)
qed

text \<open>
  C4, as stated, fails: the scenario tree is compilable, but where the compiler is missing
  \<^verbatim>\<open>_build\<close> raises the compilation error and produces no predictor.
\<close>

theorem build_compiler_failure_counterexample:
  "truthy (compilable scenario_model) \<and>
   fst (build no_compiler_env scenario_model empty_world) = Inl (CompileError ''compiler not found'')"
  by (simp add: scenario_model_def build_def no_compiler_env_def scenario_env_def log_call_def
      Let_def empty_world_def)

text \<open>
  C4, amended. If \<^verbatim>\<open>compilable\<close> is false, \<^verbatim>\<open>_build\<close> raises the validation error and
  the world is unchanged: no call has gone to the code generator, the compiler or the
  loader. If \<^verbatim>\<open>compilable\<close> is true, \<^verbatim>\<open>_build\<close> reads the descriptor off the model,
  calls the code generator, the compiler and the loader in this order, and raises the
  error of the first step that fails: the error of reading the descriptor (before any
  call), the generator's error, \<^verbatim>\<open>AssertionError\<close> where the model has recorded no
  feature count, the compiler's error, or the loader's error (the module file is missing
  or the entry point is not resolved). When every step succeeds it returns the predictor
  made of the recorded feature count, the evaluator resolved from the compiled module and
  the module path.
\<close>
theorem build_rejects_or_builds:
  "(\<not> truthy (compilable clf) \<longrightarrow>
      build env clf w = (Inl (ValueError_cannot_compile (class_name clf)), w)) \<and>
   (truthy (compilable clf) \<and> extract_descriptor clf = Inl e \<longrightarrow>
      build env clf w = (Inl e, w)) \<and>
   (truthy (compilable clf) \<and> extract_descriptor clf = Inr d \<and> generate env d = Inl e \<longrightarrow>
      fst (build env clf w) = Inl e \<and>
      trace (snd (build env clf w)) = trace w @ [generator_call d]) \<and>
   (truthy (compilable clf) \<and> extract_descriptor clf = Inr d \<and> generate env d = Inr ls \<and>
    recorded_n_features clf = None \<longrightarrow>
      fst (build env clf w) = Inl AssertionError) \<and>
   (truthy (compilable clf) \<and> extract_descriptor clf = Inr d \<and> generate env d = Inr ls \<and>
    recorded_n_features clf = Some nf \<and>
    cg_compile_code_to_object env (join_lines ls) (files w) = (Inl e, fs) \<longrightarrow>
      fst (build env clf w) = Inl e \<and>
      trace (snd (build env clf w)) =
        trace w @ [generator_call d, Call_compile_code_to_object (join_lines ls)]) \<and>
   (truthy (compilable clf) \<and> extract_descriptor clf = Inr d \<and> generate env d = Inr ls \<and>
    recorded_n_features clf = Some nf \<and>
    cg_compile_code_to_object env (join_lines ls) (files w) = (Inr so, fs) \<and>
    fs so = None \<longrightarrow>
      fst (build env clf w) = Inl (LoadError so)) \<and>
   (truthy (compilable clf) \<and> extract_descriptor clf = Inr d \<and> generate env d = Inr ls \<and>
    recorded_n_features clf = Some nf \<and>
    cg_compile_code_to_object env (join_lines ls) (files w) = (Inr so, fs) \<and>
    fs so = Some bytes \<and> dlsym env bytes (cg_EVALUATE_FN_NAME env) = Inl e \<longrightarrow>
      fst (build env clf w) = Inl e) \<and>
   (truthy (compilable clf) \<and> extract_descriptor clf = Inr d \<and> generate env d = Inr ls \<and>
    recorded_n_features clf = Some nf \<and>
    cg_compile_code_to_object env (join_lines ls) (files w) = (Inr so, fs) \<and>
    fs so = Some bytes \<and> dlsym env bytes (cg_EVALUATE_FN_NAME env) = Inr f \<longrightarrow>
      fst (build env clf w) =
        Inr \<lparr>self_n_features = PyInt (int nf), self_evaluator = Evaluator f, self_so_f = so\<rparr> \<and>
      files (snd (build env clf w)) = fs \<and>
      trace (snd (build env clf w)) =
        trace w @ [generator_call d, Call_compile_code_to_object (join_lines ls),
                   Call_CompiledPredictor so (cg_EVALUATE_FN_NAME env)])"
proof (intro conjI impI)
  assume "\<not> truthy (compilable clf)"
  then show "build env clf w = (Inl (ValueError_cannot_compile (class_name clf)), w)"
    by (rule build_not_compilable)
next
  assume "truthy (compilable clf) \<and> extract_descriptor clf = Inl e"
  then show "build env clf w = (Inl e, w)" by (simp add: build_extraction_fails)
next
  assume a: "truthy (compilable clf) \<and> extract_descriptor clf = Inr d \<and> generate env d = Inl e"
  then have b: "build env clf w = (Inl e, log_call (generator_call d) w)"
    by (simp add: build_generator_fails)
  show "fst (build env clf w) = Inl e" by (simp add: b)
  show "trace (snd (build env clf w)) = trace w @ [generator_call d]"
    by (simp add: b log_call_def)
next
  assume "truthy (compilable clf) \<and> extract_descriptor clf = Inr d \<and> generate env d = Inr ls \<and>
    recorded_n_features clf = None"
  then show "fst (build env clf w) = Inl AssertionError"
    by (simp add: build_no_feature_count)
next
  assume a: "truthy (compilable clf) \<and> extract_descriptor clf = Inr d \<and>
    generate env d = Inr ls \<and> recorded_n_features clf = Some nf \<and>
    cg_compile_code_to_object env (join_lines ls) (files w) = (Inl e, fs)"
  then have b: "build env clf w =
     (Inl e, (log_call (Call_compile_code_to_object (join_lines ls))
                (log_call (generator_call d) w))\<lparr>files := fs\<rparr>)"
  proof -
    from a have h: "truthy (compilable clf)" "extract_descriptor clf = Inr d" "generate env d = Inr ls"
    "recorded_n_features clf = Some nf"
      "cg_compile_code_to_object env (join_lines ls) (files w) = (Inl e, fs)" by simp_all
    show ?thesis by (rule build_compiler_fails[OF h])
  qed
  show "fst (build env clf w) = Inl e" by (simp add: b)
  show "trace (snd (build env clf w)) =
        trace w @ [generator_call d, Call_compile_code_to_object (join_lines ls)]"
    by (simp add: b log_call_def)
next
  assume a: "truthy (compilable clf) \<and> extract_descriptor clf = Inr d \<and>
    generate env d = Inr ls \<and> recorded_n_features clf = Some nf \<and>
    cg_compile_code_to_object env (join_lines ls) (files w) = (Inr so, fs) \<and> fs so = None"
  then have h: "truthy (compilable clf)" "extract_descriptor clf = Inr d" "generate env d = Inr ls"
    "recorded_n_features clf = Some nf"
    "cg_compile_code_to_object env (join_lines ls) (files w) = (Inr so, fs)" "fs so = None"
    by simp_all
  show "fst (build env clf w) = Inl (LoadError so)" by (rule build_module_missing[OF h])
next
  assume a: "truthy (compilable clf) \<and> extract_descriptor clf = Inr d \<and>
    generate env d = Inr ls \<and> recorded_n_features clf = Some nf \<and>
    cg_compile_code_to_object env (join_lines ls) (files w) = (Inr so, fs) \<and>
    fs so = Some bytes \<and> dlsym env bytes (cg_EVALUATE_FN_NAME env) = Inl e"
  then have h: "truthy (compilable clf)" "extract_descriptor clf = Inr d" "generate env d = Inr ls"
    "recorded_n_features clf = Some nf"
    "cg_compile_code_to_object env (join_lines ls) (files w) = (Inr so, fs)"
    "fs so = Some bytes" "dlsym env bytes (cg_EVALUATE_FN_NAME env) = Inl e"
    by simp_all
  show "fst (build env clf w) = Inl e" by (rule build_loader_fails[OF h])
next
  assume a: "truthy (compilable clf) \<and> extract_descriptor clf = Inr d \<and>
    generate env d = Inr ls \<and> recorded_n_features clf = Some nf \<and>
    cg_compile_code_to_object env (join_lines ls) (files w) = (Inr so, fs) \<and>
    fs so = Some bytes \<and> dlsym env bytes (cg_EVALUATE_FN_NAME env) = Inr f"
  then have b: "build env clf w =
    (Inr \<lparr>self_n_features = PyInt (int nf), self_evaluator = Evaluator f, self_so_f = so\<rparr>,
     log_call (Call_CompiledPredictor so (cg_EVALUATE_FN_NAME env))
       ((log_call (Call_compile_code_to_object (join_lines ls))
          (log_call (generator_call d) w))\<lparr>files := fs\<rparr>))"
  proof -
    from a have h: "truthy (compilable clf)" "extract_descriptor clf = Inr d" "generate env d = Inr ls"
    "recorded_n_features clf = Some nf"
      "cg_compile_code_to_object env (join_lines ls) (files w) = (Inr so, fs)"
      "fs so = Some bytes" "dlsym env bytes (cg_EVALUATE_FN_NAME env) = Inr f"
      by simp_all
    show ?thesis by (rule build_all_stages[OF h])
  qed
  show "fst (build env clf w) =
        Inr \<lparr>self_n_features = PyInt (int nf), self_evaluator = Evaluator f, self_so_f = so\<rparr>"
    by (simp add: b)
  show "files (snd (build env clf w)) = fs" by (simp add: b log_call_def)
  show "trace (snd (build env clf w)) =
        trace w @ [generator_call d, Call_compile_code_to_object (join_lines ls),
                   Call_CompiledPredictor so (cg_EVALUATE_FN_NAME env)]"
    by (simp add: b log_call_def)
qed

theorem build_rejects_or_builds_witness:
  "build scenario_env (Other ''SVR'') empty_world =
     (Inl (ValueError_cannot_compile ''SVR''), empty_world) \<and>
   build scenario_env (ForestRegressor ''RandomForestRegressor'' [scenario_model] 0 1) empty_world =
     (Inl ZeroDivisionError, empty_world) \<and>
   fst (build no_generator_env scenario_model empty_world) = Inl StructuralError \<and>
   fst (build scenario_env
     (DecisionTreeRegressor ''DecisionTreeRegressor'' (Some 1) (Some 1) (Some scenario_tree) None)
     empty_world) = Inl AssertionError \<and>
   fst (build no_compiler_env scenario_model empty_world) =
     Inl (CompileError ''compiler not found'') \<and>
   fst (build no_module_env scenario_model empty_world) = Inl (LoadError ''/tmp/model.so'') \<and>
   fst (build no_symbol_env scenario_model empty_world) = Inl (LoadError ''evaluate'') \<and>
   fst (build scenario_env scenario_model empty_world) =
     Inr \<lparr>self_n_features = PyInt 1, self_evaluator = Evaluator scenario_fn,
          self_so_f = ''/tmp/model.so''\<rparr> \<and>
   trace (snd (build scenario_env scenario_model empty_world)) =
     [Call_code_gen_tree scenario_tree,
      Call_compile_code_to_object (join_lines [''float evaluate(float* f) {'', ''}'']),
      Call_CompiledPredictor ''/tmp/model.so'' ''evaluate'']"
proof -
  let ?ls = "[''float evaluate(float* f) {'', ''}'']"
  let ?F = "ForestRegressor ''RandomForestRegressor'' [scenario_model] 0 1"
  let ?T = "DecisionTreeRegressor ''DecisionTreeRegressor'' (Some 1) (Some 1)
    (Some scenario_tree) None"
  have w: "trace empty_world = []" "files empty_world = Map.empty"
    by (simp_all add: empty_world_def)
  have c: "\<not> truthy (compilable (Other ''SVR''))" "truthy (compilable ?F)"
    "truthy (compilable scenario_model)" "truthy (compilable ?T)"
    by (simp_all add: scenario_model_def)
  have x: "extract_descriptor ?F = Inl ZeroDivisionError"
    "extract_descriptor scenario_model = Inr (Single_tree scenario_tree)"
    "extract_descriptor ?T = Inr (Single_tree scenario_tree)"
    by (simp_all add: scenario_model_def)
  have r: "recorded_n_features scenario_model = Some 1" "recorded_n_features ?T = None"
    by (simp_all add: scenario_model_def)
  have g: "generate no_generator_env (Single_tree scenario_tree) = Inl StructuralError"
    "generate scenario_env (Single_tree scenario_tree) = Inr ?ls"
    "generate no_compiler_env (Single_tree scenario_tree) = Inr ?ls"
    "generate no_module_env (Single_tree scenario_tree) = Inr ?ls"
    "generate no_symbol_env (Single_tree scenario_tree) = Inr ?ls"
    by (simp_all add: no_generator_env_def no_compiler_env_def no_module_env_def
        no_symbol_env_def scenario_env_def)
  have k: "cg_compile_code_to_object no_compiler_env (join_lines ?ls) (files empty_world) =
      (Inl (CompileError ''compiler not found''), Map.empty)"
    "cg_compile_code_to_object no_module_env (join_lines ?ls) (files empty_world) =
      (Inr ''/tmp/model.so'', Map.empty)"
    "cg_compile_code_to_object no_symbol_env (join_lines ?ls) (files empty_world) =
      (Inr ''/tmp/model.so'', [''/tmp/model.so'' \<mapsto> ''ELF''])"
    "cg_compile_code_to_object scenario_env (join_lines ?ls) (files empty_world) =
      (Inr ''/tmp/model.so'', [''/tmp/model.so'' \<mapsto> ''ELF''])"
    by (simp_all add: no_compiler_env_def no_module_env_def no_symbol_env_def scenario_env_def w)
  have d: "dlsym no_symbol_env ''ELF'' (cg_EVALUATE_FN_NAME no_symbol_env) =
      Inl (LoadError ''evaluate'')"
    "dlsym scenario_env ''ELF'' (cg_EVALUATE_FN_NAME scenario_env) = Inr scenario_fn"
    "cg_EVALUATE_FN_NAME scenario_env = ''evaluate''"
    by (simp_all add: no_symbol_env_def scenario_env_def)
  have 1: "build scenario_env (Other ''SVR'') empty_world =
     (Inl (ValueError_cannot_compile ''SVR''), empty_world)"
    using c(1) build_rejects_or_builds[where clf = "Other ''SVR''" and env = scenario_env
        and w = empty_world] by simp
  have 2: "build scenario_env ?F empty_world = (Inl ZeroDivisionError, empty_world)"
    using c(2) x(1) build_rejects_or_builds[where clf = ?F and env = scenario_env
        and w = empty_world and e = ZeroDivisionError] by simp
  have 3: "fst (build no_generator_env scenario_model empty_world) = Inl StructuralError"
    using c(3) x(2) g(1) build_rejects_or_builds[where clf = scenario_model
        and env = no_generator_env and w = empty_world and e = StructuralError
        and d = "Single_tree scenario_tree"] by simp
  have 4: "fst (build scenario_env ?T empty_world) = Inl AssertionError"
    using c(4) x(3) g(2) r(2) build_rejects_or_builds[where clf = ?T
        and env = scenario_env and w = empty_world and ls = ?ls
        and d = "Single_tree scenario_tree"] by simp
  have 5: "fst (build no_compiler_env scenario_model empty_world) =
     Inl (CompileError ''compiler not found'')"
    using c(3) x(2) g(3) r(1) k(1) build_rejects_or_builds[where clf = scenario_model
        and env = no_compiler_env and w = empty_world and ls = ?ls and nf = 1
        and e = "CompileError ''compiler not found''" and fs = Map.empty
        and d = "Single_tree scenario_tree"] by simp
  have 6: "fst (build no_module_env scenario_model empty_world) = Inl (LoadError ''/tmp/model.so'')"
    using c(3) x(2) g(4) r(1) k(2) build_rejects_or_builds[where clf = scenario_model
        and env = no_module_env and w = empty_world and ls = ?ls and nf = 1
        and so = "''/tmp/model.so''" and fs = Map.empty
        and d = "Single_tree scenario_tree"] by simp
  have 7: "fst (build no_symbol_env scenario_model empty_world) = Inl (LoadError ''evaluate'')"
    using c(3) x(2) g(5) r(1) k(3) d(1) build_rejects_or_builds[where clf = scenario_model
        and env = no_symbol_env and w = empty_world and ls = ?ls and nf = 1
        and so = "''/tmp/model.so''" and fs = "[''/tmp/model.so'' \<mapsto> ''ELF'']"
        and bytes = "''ELF''" and e = "LoadError ''evaluate''"
        and d = "Single_tree scenario_tree"] by simp
  have 8: "fst (build scenario_env scenario_model empty_world) =
     Inr \<lparr>self_n_features = PyInt 1, self_evaluator = Evaluator scenario_fn,
          self_so_f = ''/tmp/model.so''\<rparr> \<and>
   trace (snd (build scenario_env scenario_model empty_world)) =
     [Call_code_gen_tree scenario_tree,
      Call_compile_code_to_object (join_lines ?ls),
      Call_CompiledPredictor ''/tmp/model.so'' ''evaluate'']"
    using c(3) x(2) g(2) r(1) k(4) d(2) build_rejects_or_builds[where clf = scenario_model
        and env = scenario_env and w = empty_world and ls = ?ls and nf = 1
        and so = "''/tmp/model.so''" and fs = "[''/tmp/model.so'' \<mapsto> ''ELF'']"
        and bytes = "''ELF''" and f = scenario_fn
        and d = "Single_tree scenario_tree"] by (simp add: w d(3))
  show ?thesis using 1 2 3 4 5 6 7 8 by blast
qed

section \<open>Properties of persisting and restoring\<close>

lemma build_success:
  "build env clf w0 = (Inr p, w1) \<Longrightarrow>
   \<exists>bytes f. files w1 (self_so_f p) = Some bytes \<and>
     dlsym env bytes (cg_EVALUATE_FN_NAME env) = Inr f \<and> self_evaluator p = Evaluator f"
  by (auto simp: build_def CompiledPredictor_def log_call_def Let_def
      split: if_splits sum.splits prod.splits option.splits)

lemma getstate_file:
  "files w (self_so_f p) = Some bytes \<Longrightarrow>
   getstate p w = Inr [(''n_features'', self_n_features p), (''so_f'', PyStr bytes)]"
  by (simp add: getstate_def)

lemma setstate_world:
  "snd (setstate env [(''n_features'', nf), (''so_f'', PyStr bytes)] w) =
     log_call (Call_CompiledPredictor (tmp_name env (tmp_seq w)) (cg_EVALUATE_FN_NAME env))
       (w\<lparr>files := (files w)(tmp_name env (tmp_seq w) \<mapsto> bytes), tmp_seq := Suc (tmp_seq w)\<rparr>)"
  by (simp add: setstate_def getitem_def CompiledPredictor_def log_call_def Let_def
      split: sum.splits)

lemma setstate_loaded:
  "dlsym env bytes (cg_EVALUATE_FN_NAME env) = Inr f \<Longrightarrow>
   fst (setstate env [(''n_features'', nf), (''so_f'', PyStr bytes)] w) =
     Inr \<lparr>self_n_features = nf, self_evaluator = Evaluator f,
          self_so_f = tmp_name env (tmp_seq w)\<rparr>"
  by (simp add: setstate_def getitem_def CompiledPredictor_def log_call_def Let_def)

lemma predict_depends:
  "self_n_features p = self_n_features q \<Longrightarrow> self_evaluator p = self_evaluator q \<Longrightarrow>
   fst (predict env X (p, u)) = fst (predict env X (q, u)) \<and>
   snd (snd (predict env X (p, u))) = snd (snd (predict env X (q, u)))"
  by (simp add: predict_def Let_def split: prod.splits)

text \<open>
  C7. Let \<open>p\<close> be a predictor that \<^verbatim>\<open>_build\<close> returned, in a world where its module file
  still has the content it had after the build. Then \<^verbatim>\<open>__getstate__\<close> succeeds,
  \<^verbatim>\<open>__setstate__\<close> on that state succeeds, and the restored predictor gives the same
  result as \<open>p\<close> on every input in every world. Restoring makes one call, to the loader:
  nothing is generated or compiled again.
\<close>

theorem restore_predicts_the_same:
  assumes "build env clf w0 = (Inr p, w1)"
      and "files w (self_so_f p) = files w1 (self_so_f p)"
  shows "\<exists>state p' w'. getstate p w = Inr state \<and> setstate env state w = (Inr p', w') \<and>
     (\<forall>X u. fst (predict env X (p', u)) = fst (predict env X (p, u)) \<and>
            snd (snd (predict env X (p', u))) = snd (snd (predict env X (p, u)))) \<and>
     trace w' = trace w @ [Call_CompiledPredictor (self_so_f p') (cg_EVALUATE_FN_NAME env)]"
proof -
  obtain bytes f where b: "files w1 (self_so_f p) = Some bytes"
    "dlsym env bytes (cg_EVALUATE_FN_NAME env) = Inr f" "self_evaluator p = Evaluator f"
    using build_success[OF assms(1)] by blast
  let ?state = "[(''n_features'', self_n_features p), (''so_f'', PyStr bytes)]"
  let ?p' = "\<lparr>self_n_features = self_n_features p, self_evaluator = Evaluator f,
          self_so_f = tmp_name env (tmp_seq w)\<rparr>"
  have g: "getstate p w = Inr ?state" using assms(2) b(1) by (simp add: getstate_file)
  have s: "setstate env ?state w = (Inr ?p', snd (setstate env ?state w))"
    using setstate_loaded[OF b(2), of "self_n_features p" w] by (simp add: prod_eq_iff)
  have t: "trace (snd (setstate env ?state w)) =
      trace w @ [Call_CompiledPredictor (self_so_f ?p') (cg_EVALUATE_FN_NAME env)]"
    by (simp add: setstate_world log_call_def)
  have q: "\<forall>X u. fst (predict env X (?p', u)) = fst (predict env X (p, u)) \<and>
            snd (snd (predict env X (?p', u))) = snd (snd (predict env X (p, u)))"
    using predict_depends[of ?p' p] b(3) by simp
  show ?thesis using g s t q by blast
qed

text \<open>
  C8, amended. The persisted form is the dictionary with exactly the two entries
  \<^verbatim>\<open>n_features\<close> (the recorded feature count) and \<^verbatim>\<open>so_f\<close> (the bytes of the module
  file); the entry point name is not part of it. Restoring writes these bytes to a new
  temporary file and resolves the fixed name \<^verbatim>\<open>cg.EVALUATE_FN_NAME\<close> in that file.
\<close>

theorem persisted_form:
  assumes "files w (self_so_f p) = Some bytes"
  shows "getstate p w = Inr [(''n_features'', self_n_features p), (''so_f'', PyStr bytes)] \<and>
     files (snd (setstate env [(''n_features'', self_n_features p), (''so_f'', PyStr bytes)] w))
       (tmp_name env (tmp_seq w)) = Some bytes \<and>
     trace (snd (setstate env [(''n_features'', self_n_features p), (''so_f'', PyStr bytes)] w)) =
       trace w @ [Call_CompiledPredictor (tmp_name env (tmp_seq w)) (cg_EVALUATE_FN_NAME env)]"
  using assms by (simp add: getstate_file setstate_world log_call_def)

text \<open>
  C8, as stated, fails: the state of the scenario predictor has the two entries below,
  and none of them is the entry point name.
\<close>

theorem persisted_form_counterexample:
  "getstate scenario_predictor (empty_world\<lparr>files := [''/tmp/model.so'' \<mapsto> ''ELF'']\<rparr>) =
     Inr [(''n_features'', PyInt 1), (''so_f'', PyStr ''ELF'')] \<and>
   \<not> records_entry_point scenario_env [(''n_features'', PyInt 1), (''so_f'', PyStr ''ELF'')]"
  by (simp add: getstate_def scenario_predictor_def records_entry_point_def scenario_env_def)

lemma scenario_build:
  "build scenario_env scenario_model empty_world =
     (Inr scenario_predictor, snd (build scenario_env scenario_model empty_world))"
  by (simp add: prod_eq_iff build_def scenario_model_def scenario_env_def scenario_predictor_def
      CompiledPredictor_def log_call_def Let_def empty_world_def)

theorem restore_predicts_the_same_witness:
  "build scenario_env scenario_model empty_world =
     (Inr scenario_predictor, snd (build scenario_env scenario_model empty_world)) \<and>
   (\<exists>state p' w'.
      getstate scenario_predictor (snd (build scenario_env scenario_model empty_world)) =
        Inr state \<and>
      setstate scenario_env state (snd (build scenario_env scenario_model empty_world)) =
        (Inr p', w') \<and>
      (\<forall>X u. fst (predict scenario_env X (p', u)) = fst (predict scenario_env X (scenario_predictor, u)) \<and>
             snd (snd (predict scenario_env X (p', u))) =
             snd (snd (predict scenario_env X (scenario_predictor, u)))) \<and>
      trace w' = trace (snd (build scenario_env scenario_model empty_world)) @
        [Call_CompiledPredictor (self_so_f p') (cg_EVALUATE_FN_NAME scenario_env)])"
  using scenario_build restore_predicts_the_same[OF scenario_build refl] by blast

theorem persisted_form_witness:
  "files (empty_world\<lparr>files := [''/tmp/model.so'' \<mapsto> ''ELF'']\<rparr>) (self_so_f scenario_predictor) =
     Some ''ELF'' \<and>
   getstate scenario_predictor (empty_world\<lparr>files := [''/tmp/model.so'' \<mapsto> ''ELF'']\<rparr>) =
     Inr [(''n_features'', PyInt 1), (''so_f'', PyStr ''ELF'')] \<and>
   trace (snd (setstate scenario_env [(''n_features'', PyInt 1), (''so_f'', PyStr ''ELF'')]
      (empty_world\<lparr>files := [''/tmp/model.so'' \<mapsto> ''ELF'']\<rparr>))) =
     [Call_CompiledPredictor ''/tmp/tmp'' ''evaluate'']"
proof -
  have h: "files (empty_world\<lparr>files := [''/tmp/model.so'' \<mapsto> ''ELF'']\<rparr>)
      (self_so_f scenario_predictor) = Some ''ELF''"
    by (simp add: scenario_predictor_def)
  have e: "self_n_features scenario_predictor = PyInt 1"
    "trace (empty_world\<lparr>files := [''/tmp/model.so'' \<mapsto> ''ELF'']\<rparr>) = []"
    "tmp_name scenario_env (tmp_seq (empty_world\<lparr>files := [''/tmp/model.so'' \<mapsto> ''ELF'']\<rparr>)) =
       ''/tmp/tmp''"
    "cg_EVALUATE_FN_NAME scenario_env = ''evaluate''"
    by (simp_all add: scenario_predictor_def empty_world_def scenario_env_def)
  show ?thesis
    using h persisted_form[OF h, of scenario_env] unfolding e by simp
qed

section \<open>Properties of the code generator\<close>

lemma exec_gen_node:
  "gen_node k t n = Inr s \<Longrightarrow> exec s x = walk k t x n"
proof (induction k arbitrary: n s)
  case 0
  then show ?case by simp
next
  case (Suc k)
  show ?case
  proof (cases "length t \<le> n \<or> is_leaf (t ! n)")
    case True
    with Suc.prems show ?thesis by (auto simp: Let_def split: if_splits)
  next
    case False
    with Suc.prems obtain l r where
      l: "gen_node k t (left (t ! n)) = Inr l" and r: "gen_node k t (right (t ! n)) = Inr r"
      and s: "s = IfLe (feature (t ! n)) (threshold (t ! n)) l r"
      by (auto simp: Let_def split: sum.splits)
    from Suc.IH[OF l] Suc.IH[OF r] False show ?thesis
      by (simp add: s Let_def split: sum.splits)
  qed
qed

lemma walk_defined:
  "gen_node k t n = Inr s \<Longrightarrow> features_in_range t x \<Longrightarrow> \<exists>v. walk k t x n = Inr v"
proof (induction k arbitrary: n s)
  case 0
  then show ?case by simp
next
  case (Suc k)
  show ?case
  proof (cases "length t \<le> n \<or> is_leaf (t ! n)")
    case True
    with Suc.prems show ?thesis by (auto simp: Let_def split: if_splits)
  next
    case False
    with Suc.prems obtain l r where
      l: "gen_node k t (left (t ! n)) = Inr l" and r: "gen_node k t (right (t ! n)) = Inr r"
      by (auto simp: Let_def split: sum.splits)
    from False have "t ! n \<in> set t" by simp
    with Suc.prems(2) False
    have "feature_value x (feature (t ! n)) = Inr (x ! nat (feature (t ! n)))"
      by (auto simp: features_in_range_def list_all_iff feature_value_def)
    with Suc.IH[OF l Suc.prems(2)] Suc.IH[OF r Suc.prems(2)] False show ?thesis
      by (auto simp: Let_def)
  qed
qed

lemma tree_ok_node:
  assumes "tree_ok r t" and "n < length t" and "\<not> is_leaf (t ! n)"
  shows "left (t ! n) < length t \<and> right (t ! n) < length t \<and>
         r (left (t ! n)) < r n \<and> r (right (t ! n)) < r n"
  using assms by (auto simp: tree_ok_def list_all_iff)

lemma lower_ranks_card:
  fixes r :: "nat \<Rightarrow> nat"
  assumes "n < length t" and "c < length t" and "r c < r n"
      and "card {m. m < length t \<and> r m \<le> r n} \<le> Suc k"
  shows "card {m. m < length t \<and> r m \<le> r c} \<le> k"
proof -
  let ?A = "{m. m < length t \<and> r m \<le> r c}"
  let ?B = "{m. m < length t \<and> r m \<le> r n}"
  have fin: "finite ?B" by simp
  have "?A \<subseteq> ?B" using assms(3) by auto
  moreover have "n \<in> ?B" "n \<notin> ?A" using assms(1,3) by auto
  ultimately have "?A \<subset> ?B" by blast
  then have "card ?A < card ?B" using fin by (rule psubset_card_mono[rotated])
  with assms(4) show ?thesis by simp
qed

lemma gen_node_succeeds:
  assumes "tree_ok r t"
  shows "n < length t \<Longrightarrow> card {m. m < length t \<and> r m \<le> r n} \<le> k \<Longrightarrow>
         \<exists>s. gen_node k t n = Inr s"
proof (induction k arbitrary: n)
  case 0
  have "finite {m. m < length t \<and> r m \<le> r n}" by simp
  with 0 have "{m. m < length t \<and> r m \<le> r n} = {}" by simp
  with 0(1) show ?case by blast
next
  case (Suc k)
  show ?case
  proof (cases "is_leaf (t ! n)")
    case True
    with Suc.prems show ?thesis by (simp add: Let_def)
  next
    case False
    note nd = tree_ok_node[OF assms Suc.prems(1) False]
    have "card {m. m < length t \<and> r m \<le> r (left (t ! n))} \<le> k"
      using lower_ranks_card[OF Suc.prems(1) _ _ Suc.prems(2), of "left (t ! n)"] nd by simp
    then obtain l where l: "gen_node k t (left (t ! n)) = Inr l"
      using Suc.IH[of "left (t ! n)"] nd by blast
    have "card {m. m < length t \<and> r m \<le> r (right (t ! n))} \<le> k"
      using lower_ranks_card[OF Suc.prems(1) _ _ Suc.prems(2), of "right (t ! n)"] nd by simp
    then obtain rt where rt: "gen_node k t (right (t ! n)) = Inr rt"
      using Suc.IH[of "right (t ! n)"] nd by blast
    show ?thesis using Suc.prems(1) False l rt by (simp add: Let_def)
  qed
qed

lemma tree_function_succeeds:
  assumes "tree_ok r t"
  shows "\<exists>s. tree_function t = Inr s"
proof -
  have ne: "0 < length t" using assms by (simp add: tree_ok_def)
  have "{m. m < length t \<and> r m \<le> r 0} \<subseteq> {..<length t}" by auto
  then have "card {m. m < length t \<and> r m \<le> r 0} \<le> card {..<length t}"
    by (intro card_mono) simp_all
  then have "card {m. m < length t \<and> r m \<le> r 0} \<le> length t" by simp
  from gen_node_succeeds[OF assms ne this] show ?thesis by (simp add: tree_function_def)
qed

lemma tree_function_walk:
  assumes "tree_function t = Inr s"
  shows "exec s x = tree_walk t x"
    and "features_in_range t x \<Longrightarrow> \<exists>v. tree_walk t x = Inr v"
  using assms exec_gen_node[of "length t" t 0 s x] walk_defined[of "length t" t 0 s x]
  by (simp_all add: tree_function_def tree_walk_def)

lemma gen_trees_succeeds:
  "list_all (\<lambda>t. tree_ok (r t) t) ts \<Longrightarrow> \<exists>fs. gen_trees i ts = Inr fs"
proof (induction ts arbitrary: i)
  case Nil
  then show ?case by simp
next
  case (Cons t ts)
  then obtain s where "tree_function t = Inr s"
    using tree_function_succeeds[of "r t" t] by auto
  moreover obtain fs where "gen_trees (Suc i) ts = Inr fs"
    using Cons.IH[of "Suc i"] Cons.prems by auto
  ultimately show ?case by simp
qed

lemma code_gen_tree_succeeds:
  assumes "tree_ok r t"
  shows "\<exists>s. tree_function t = Inr s \<and> code_gen_tree t = Inr [(EVALUATE_FN, Branches s)]"
  using tree_function_succeeds[OF assms] by (auto simp: code_gen_tree_def)

text \<open>
  C1. Let \<open>t\<close> satisfy the invariant of the Tree IR, and let the native toolchain implement
  the code that the generator emits for \<open>t\<close>. Then the generator does emit code for \<open>t\<close>,
  this code returns on every feature vector what the recursive walk returns (left where
  \<^verbatim>\<open>x[feature] <= threshold\<close>, so equal values go left; right otherwise; the leaf's
  value at a leaf), \<^verbatim>\<open>_build\<close> on a tree regressor with one output, one class and the
  tree \<open>t\<close> returns a predictor, and on every feature vector that covers the feature
  indices of \<open>t\<close> the walk returns a value and the predictor's evaluator returns that value.
\<close>
theorem compiled_tree_agrees_with_walk:
  assumes "tree_ok r t"
      and "toolchain_implements env (files w) (cg_code_gen_tree env t) (code_gen_tree t)"
  shows "\<exists>src p w'.
     code_gen_tree t = Inr src \<and>
     evaluate src x = tree_walk t x \<and>
     build env (DecisionTreeRegressor nm (Some 1) (Some 1) (Some t) (Some nf)) w = (Inr p, w') \<and>
     self_n_features p = PyInt (int nf) \<and>
     (features_in_range t x \<longrightarrow> tree_walk t x = Inr (func (self_evaluator p) x))"
proof -
  let ?clf = "DecisionTreeRegressor nm (Some 1) (Some 1) (Some t) (Some nf)"
  obtain s where s: "tree_function t = Inr s"
    and src: "code_gen_tree t = Inr [(EVALUATE_FN, Branches s)]"
    using code_gen_tree_succeeds[OF assms(1)] by blast
  let ?src = "[(EVALUATE_FN, Branches s)]"
  have ev: "evaluate ?src x = tree_walk t x"
    using tree_function_walk(1)[OF s, of x] by (simp add: evaluate_def)
  from assms(2) src obtain ls so fs' bytes f where
    g: "cg_code_gen_tree env t = Inr ls"
    and k: "cg_compile_code_to_object env (join_lines ls) (files w) = (Inr so, fs')"
    and m: "fs' so = Some bytes"
    and d: "dlsym env bytes (cg_EVALUATE_FN_NAME env) = Inr f"
    and sem: "\<forall>x v. evaluate ?src x = Inr v \<longrightarrow> f x = v"
    unfolding toolchain_implements_def by blast
  have c: "truthy (compilable ?clf)" by simp
  have x: "extract_descriptor ?clf = Inr (Single_tree t)" by simp
  have b: "build env ?clf w =
    (Inr \<lparr>self_n_features = PyInt (int nf), self_evaluator = Evaluator f, self_so_f = so\<rparr>,
     log_call (Call_CompiledPredictor so (cg_EVALUATE_FN_NAME env))
       ((log_call (Call_compile_code_to_object (join_lines ls))
          (log_call (generator_call (Single_tree t)) w))\<lparr>files := fs'\<rparr>))"
    by (rule build_all_stages[OF c x _ _ k m d]) (simp_all add: g)
  have "tree_walk t x = Inr (f x)" if fr: "features_in_range t x"
  proof -
    obtain v where v: "tree_walk t x = Inr v"
      using tree_function_walk(2)[OF s fr] by blast
    with ev sem have "f x = v" by simp
    with v show ?thesis by simp
  qed
  with src ev b show ?thesis by simp
qed

lemma example_trees_ok:
  "tree_ok (\<lambda>n. 1 - n) scenario_tree" "tree_ok (\<lambda>n. 1 - n) second_tree"
  "tree_ok (\<lambda>n. 0) leaf_tree"
  by (simp_all add: tree_ok_def scenario_tree_def second_tree_def leaf_tree_def)

lemma example_walks:
  "tree_walk scenario_tree [3 / 10] = Inr 1" "tree_walk second_tree [3 / 10] = Inr 7"
  "tree_walk second_tree [1 / 4] = Inr 5" "tree_walk leaf_tree [] = Inr 9"
  by (simp_all add: tree_walk_def scenario_tree_def second_tree_def leaf_tree_def
      feature_value_def Let_def)

lemma example_codes:
  "code_gen_tree second_tree =
     Inr [(EVALUATE_FN, Branches (IfLe 0 (1 / 4) (Return 5) (Return 7)))]"
  "code_gen_tree leaf_tree = Inr [(EVALUATE_FN, Branches (Return 9))]"
  by (simp_all add: code_gen_tree_def tree_function_def second_tree_def leaf_tree_def Let_def)

lemma reference_env_implements:
  "toolchain_implements (reference_env src) fs
     (cg_code_gen_tree (reference_env src) t) (Inr src)"
  "toolchain_implements (reference_env src) fs
     (cg_code_gen_ensemble (reference_env src) ts weight initial_value) (Inr src)"
  by (simp_all add: toolchain_implements_def reference_env_def scenario_env_def)

theorem compiled_tree_agrees_with_walk_witness:
  "tree_ok (\<lambda>n. 1 - n) second_tree \<and>
   toolchain_implements
     (reference_env [(EVALUATE_FN, Branches (IfLe 0 (1 / 4) (Return 5) (Return 7)))])
     (files empty_world)
     (cg_code_gen_tree
        (reference_env [(EVALUATE_FN, Branches (IfLe 0 (1 / 4) (Return 5) (Return 7)))])
        second_tree)
     (code_gen_tree second_tree) \<and>
   features_in_range second_tree [3 / 10] \<and>
   (\<exists>p w'.
      build (reference_env [(EVALUATE_FN, Branches (IfLe 0 (1 / 4) (Return 5) (Return 7)))])
        second_model empty_world = (Inr p, w') \<and>
      func (self_evaluator p) [3 / 10] = 7) \<and>
   tree_ok (\<lambda>n. 0) leaf_tree \<and>
   (\<exists>p w'.
      build (reference_env [(EVALUATE_FN, Branches (Return 9))])
        (DecisionTreeRegressor ''DecisionTreeRegressor'' (Some 1) (Some 1) (Some leaf_tree)
           (Some 1)) empty_world = (Inr p, w') \<and>
      func (self_evaluator p) [] = 9)"
proof -
  let ?src = "[(EVALUATE_FN, Branches (IfLe 0 (1 / 4) (Return 5) (Return 7)))]"
  let ?leaf = "[(EVALUATE_FN, Branches (Return 9))]"
  have tc: "toolchain_implements (reference_env ?src) (files empty_world)
      (cg_code_gen_tree (reference_env ?src) second_tree) (code_gen_tree second_tree)"
    unfolding example_codes by (rule reference_env_implements)
  have tl: "toolchain_implements (reference_env ?leaf) (files empty_world)
      (cg_code_gen_tree (reference_env ?leaf) leaf_tree) (code_gen_tree leaf_tree)"
    unfolding example_codes by (rule reference_env_implements)
  have fr: "features_in_range second_tree [3 / 10]" "features_in_range leaf_tree []"
    by (simp_all add: features_in_range_def second_tree_def leaf_tree_def)
  have 1: "\<exists>p w'. build (reference_env ?src) second_model empty_world = (Inr p, w') \<and>
      func (self_evaluator p) [3 / 10] = 7"
    using compiled_tree_agrees_with_walk[OF example_trees_ok(2) tc,
        of "[3 / 10]" "''DecisionTreeRegressor''" 1, folded second_model_def]
      fr(1) example_walks(2)
    by auto
  have 2: "\<exists>p w'. build (reference_env ?leaf)
        (DecisionTreeRegressor ''DecisionTreeRegressor'' (Some 1) (Some 1) (Some leaf_tree)
           (Some 1)) empty_world = (Inr p, w') \<and>
      func (self_evaluator p) [] = 9"
    using compiled_tree_agrees_with_walk[OF example_trees_ok(3) tl,
        of "[]" "''DecisionTreeRegressor''" 1]
      fr(2) example_walks(4)
    by auto
  show ?thesis using example_trees_ok(2,3) tc fr(1) 1 2 by blast
qed

lemma gen_trees_no_entry: "gen_trees i ts = Inr fs \<Longrightarrow> map_of fs EVALUATE_FN = None"
  by (induction ts arbitrary: i fs) (auto split: sum.splits)

lemma gen_trees_lookup:
  "gen_trees i ts = Inr fs \<Longrightarrow> j < length ts \<Longrightarrow>
   \<exists>s. tree_function (ts ! j) = Inr s \<and> map_of fs (TREE_FN (i + j)) = Some (Branches s)"
proof (induction ts arbitrary: i fs j)
  case Nil
  then show ?case by simp
next
  case (Cons t ts)
  from Cons.prems(1) obtain s fs' where
    s: "tree_function t = Inr s" and g: "gen_trees (Suc i) ts = Inr fs'"
    and fs: "fs = (TREE_FN i, Branches s) # fs'"
    by (auto split: sum.splits)
  show ?case
  proof (cases j)
    case 0
    then show ?thesis by (simp add: s fs)
  next
    case (Suc j')
    with Cons.prems(2) have "j' < length ts" by simp
    from Cons.IH[OF g this] Suc show ?thesis by (simp add: fs)
  qed
qed

lemma sum_calls_values:
  "list_all2 (\<lambda>fname v. call_tree src x fname = Inr v) fnames vs \<Longrightarrow>
   sum_calls src x fnames = Inr (sum_list vs)"
  by (induction rule: list_all2_induct) simp_all

lemma ensemble_has_feature_count:
  "extract_descriptor clf = Inr (Ensemble ts weight initial_value) \<Longrightarrow>
   \<exists>nf. recorded_n_features clf = Some nf"
  by (cases clf) (auto split: option.splits)

lemma code_gen_ensemble_succeeds:
  assumes "list_all (\<lambda>t. tree_ok (r t) t) ts"
  shows "\<exists>src. code_gen_ensemble ts weight initial_value = Inr src"
  using gen_trees_succeeds[OF assms, of 0] by (auto simp: code_gen_ensemble_def)

lemma ensemble_semantics:
  assumes "code_gen_ensemble ts weight initial_value = Inr src"
      and "list_all (\<lambda>t. features_in_range t x) ts"
  shows "\<exists>vs. map (\<lambda>t. tree_walk t x) ts = map Inr vs \<and>
     evaluate src x = Inr (initial_value + weight * sum_list vs)"
proof -
  from assms(1) obtain fs where g: "gen_trees 0 ts = Inr fs"
    and src: "src = fs @ [(EVALUATE_FN,
        Weighted_sum initial_value weight (map TREE_FN [0..<length ts]))]"
    by (auto simp: code_gen_ensemble_def split: sum.splits)
  define vs where "vs = map (\<lambda>t. case tree_walk t x of Inr v \<Rightarrow> v | Inl e \<Rightarrow> 0) ts"
  have tree: "tree_walk (ts ! j) x = Inr (vs ! j) \<and> call_tree src x (TREE_FN j) = Inr (vs ! j)"
    if j: "j < length ts" for j
  proof -
    obtain s where s: "tree_function (ts ! j) = Inr s"
      and m: "map_of fs (TREE_FN j) = Some (Branches s)"
      using gen_trees_lookup[OF g j] by auto
    have r: "features_in_range (ts ! j) x"
      using assms(2) j by (simp add: list_all_length)
    have w: "exec s x = tree_walk (ts ! j) x"
      by (rule tree_function_walk(1)[OF s])
    obtain v where v: "tree_walk (ts ! j) x = Inr v"
      using tree_function_walk(2)[OF s r] by blast
    have "vs ! j = v" using j v by (simp add: vs_def)
    moreover have "call_tree src x (TREE_FN j) = exec s x"
      by (simp add: call_tree_def src m)
    ultimately show ?thesis using v w by simp
  qed
  have lv: "length vs = length ts" by (simp add: vs_def)
  have walks: "map (\<lambda>t. tree_walk t x) ts = map Inr vs"
  proof (rule nth_equalityI)
    show "length (map (\<lambda>t. tree_walk t x) ts) = length (map Inr vs)" by (simp add: lv)
  next
    fix j assume "j < length (map (\<lambda>t. tree_walk t x) ts)"
    then have j: "j < length ts" by simp
    from tree[OF j] have "tree_walk (ts ! j) x = Inr (vs ! j)" by blast
    then show "map (\<lambda>t. tree_walk t x) ts ! j = map Inr vs ! j" using j lv by simp
  qed
  have calls: "\<forall>j<length ts. call_tree src x (TREE_FN j) = Inr (vs ! j)"
    using tree by blast
  have "list_all2 (\<lambda>fname v. call_tree src x fname = Inr v) (map TREE_FN [0..<length ts]) vs"
    using calls lv by (simp add: list_all2_conv_all_nth)
  then have sum: "sum_calls src x (map TREE_FN [0..<length ts]) = Inr (sum_list vs)"
    by (rule sum_calls_values)
  have "map_of src EVALUATE_FN =
      Some (Weighted_sum initial_value weight (map TREE_FN [0..<length ts]))"
    by (simp add: src map_add_def gen_trees_no_entry[OF g])
  then have "evaluate src x = Inr (initial_value + weight * sum_list vs)"
    by (simp add: evaluate_def sum)
  with walks show ?thesis by blast
qed

text \<open>
  C2. Let every tree of \<open>ts\<close> satisfy the invariant of the Tree IR and let \<open>x\<close> cover their
  feature indices. Then the generator emits code for the ensemble, every tree's walk on
  \<open>x\<close> returns a value, and the emitted code returns \<^verbatim>\<open>initial_value + weight * sum\<close> of
  these values over all member trees. If moreover \<open>clf\<close> is a compilable boosted or forest
  ensemble with the descriptor \<open>(ts, weight, initial_value)\<close> and the native toolchain
  implements the emitted code, then \<^verbatim>\<open>_build\<close> returns a predictor whose evaluator
  returns that same number on \<open>x\<close>.
\<close>
theorem compiled_ensemble_agrees_with_weighted_sum:
  assumes "list_all (\<lambda>t. tree_ok (r t) t) ts"
      and "list_all (\<lambda>t. features_in_range t x) ts"
  shows "\<exists>src vs.
     code_gen_ensemble ts weight initial_value = Inr src \<and>
     map (\<lambda>t. tree_walk t x) ts = map Inr vs \<and>
     evaluate src x = Inr (initial_value + weight * sum_list vs) \<and>
     (truthy (compilable clf) \<and>
      extract_descriptor clf = Inr (Ensemble ts weight initial_value) \<and>
      toolchain_implements env (files w)
        (cg_code_gen_ensemble env ts weight initial_value)
        (code_gen_ensemble ts weight initial_value) \<longrightarrow>
        (\<exists>p w'. build env clf w = (Inr p, w') \<and>
           func (self_evaluator p) x = initial_value + weight * sum_list vs))"
proof -
  obtain src where src: "code_gen_ensemble ts weight initial_value = Inr src"
    using code_gen_ensemble_succeeds[OF assms(1)] by blast
  obtain vs where walks: "map (\<lambda>t. tree_walk t x) ts = map Inr vs"
    and ev: "evaluate src x = Inr (initial_value + weight * sum_list vs)"
    using ensemble_semantics[OF src assms(2)] by blast
  have "\<exists>p w'. build env clf w = (Inr p, w') \<and>
           func (self_evaluator p) x = initial_value + weight * sum_list vs"
    if c: "truthy (compilable clf)"
      and x: "extract_descriptor clf = Inr (Ensemble ts weight initial_value)"
      and tc: "toolchain_implements env (files w)
        (cg_code_gen_ensemble env ts weight initial_value)
        (code_gen_ensemble ts weight initial_value)"
  proof -
    from tc src obtain ls so fs' bytes f where
      g: "cg_code_gen_ensemble env ts weight initial_value = Inr ls"
      and k: "cg_compile_code_to_object env (join_lines ls) (files w) = (Inr so, fs')"
      and m: "fs' so = Some bytes"
      and d: "dlsym env bytes (cg_EVALUATE_FN_NAME env) = Inr f"
      and sem: "\<forall>x v. evaluate src x = Inr v \<longrightarrow> f x = v"
      unfolding toolchain_implements_def by blast
    obtain nf where nf: "recorded_n_features clf = Some nf"
      using ensemble_has_feature_count[OF x] by blast
    have b: "build env clf w =
      (Inr \<lparr>self_n_features = PyInt (int nf), self_evaluator = Evaluator f, self_so_f = so\<rparr>,
       log_call (Call_CompiledPredictor so (cg_EVALUATE_FN_NAME env))
         ((log_call (Call_compile_code_to_object (join_lines ls))
            (log_call (generator_call (Ensemble ts weight initial_value)) w))
          \<lparr>files := fs'\<rparr>))"
      by (rule build_all_stages[OF c x _ nf k m d]) (simp add: g)
    from sem ev have "f x = initial_value + weight * sum_list vs" by simp
    with b show ?thesis by simp
  qed
  with src walks ev show ?thesis by blast
qed

lemma example_ensemble_codes:
  "code_gen_ensemble [scenario_tree, second_tree] (1 / 10) 3 =
     Inr [(TREE_FN 0, Branches (IfLe 0 (1 / 2) (Return 1) (Return 2))),
          (TREE_FN 1, Branches (IfLe 0 (1 / 4) (Return 5) (Return 7))),
          (EVALUATE_FN, Weighted_sum 3 (1 / 10) [TREE_FN 0, TREE_FN 1])]"
  "code_gen_ensemble [scenario_tree, second_tree, scenario_tree, second_tree] (1 / 4) 0 =
     Inr [(TREE_FN 0, Branches (IfLe 0 (1 / 2) (Return 1) (Return 2))),
          (TREE_FN 1, Branches (IfLe 0 (1 / 4) (Return 5) (Return 7))),
          (TREE_FN 2, Branches (IfLe 0 (1 / 2) (Return 1) (Return 2))),
          (TREE_FN 3, Branches (IfLe 0 (1 / 4) (Return 5) (Return 7))),
          (EVALUATE_FN, Weighted_sum 0 (1 / 4) [TREE_FN 0, TREE_FN 1, TREE_FN 2, TREE_FN 3])]"
  by (simp_all add: code_gen_ensemble_def tree_function_def scenario_tree_def second_tree_def
      Let_def numeral_2_eq_2 numeral_3_eq_3)

lemma example_descriptors:
  "extract_descriptor example_boosting = Inr (Ensemble [scenario_tree, second_tree] (1 / 10) 3)"
  "extract_descriptor example_forest =
     Inr (Ensemble [scenario_tree, second_tree, scenario_tree, second_tree] (1 / 4) 0)"
  "truthy (compilable example_boosting)" "truthy (compilable example_forest)"
  by (simp_all add: example_boosting_def example_forest_def scenario_model_def second_model_def)

theorem compiled_ensemble_agrees_with_weighted_sum_witness:
  "list_all (\<lambda>t. tree_ok (\<lambda>n. 1 - n) t) [scenario_tree, second_tree] \<and>
   list_all (\<lambda>t. features_in_range t [3 / 10]) [scenario_tree, second_tree] \<and>
   truthy (compilable example_boosting) \<and>
   extract_descriptor example_boosting =
     Inr (Ensemble [scenario_tree, second_tree] (1 / 10) 3) \<and>
   map (\<lambda>t. tree_walk t [3 / 10]) [scenario_tree, second_tree] = [Inr 1, Inr 7] \<and>
   (\<exists>src p w'.
      code_gen_ensemble [scenario_tree, second_tree] (1 / 10) 3 = Inr src \<and>
      toolchain_implements (reference_env src) (files empty_world)
        (cg_code_gen_ensemble (reference_env src) [scenario_tree, second_tree] (1 / 10) 3)
        (code_gen_ensemble [scenario_tree, second_tree] (1 / 10) 3) \<and>
      evaluate src [3 / 10] = Inr (19 / 5) \<and>
      build (reference_env src) example_boosting empty_world = (Inr p, w') \<and>
      func (self_evaluator p) [3 / 10] = 19 / 5) \<and>
   (\<exists>src p w'.
      code_gen_ensemble [scenario_tree, second_tree, scenario_tree, second_tree] (1 / 4) 0 =
        Inr src \<and>
      build (reference_env src) example_forest empty_world = (Inr p, w') \<and>
      func (self_evaluator p) [3 / 10] = 4)"
proof -
  let ?b = "[scenario_tree, second_tree]"
  let ?f = "[scenario_tree, second_tree, scenario_tree, second_tree]"
  have ok: "list_all (\<lambda>t. tree_ok (\<lambda>n. 1 - n) t) ?b" "list_all (\<lambda>t. tree_ok (\<lambda>n. 1 - n) t) ?f"
    using example_trees_ok by simp_all
  have fr: "list_all (\<lambda>t. features_in_range t [3 / 10]) ?b"
    "list_all (\<lambda>t. features_in_range t [3 / 10]) ?f"
    by (simp_all add: features_in_range_def scenario_tree_def second_tree_def)
  have wb: "map (\<lambda>t. tree_walk t [3 / 10]) ?b = [Inr 1, Inr 7]"
    and wf: "map (\<lambda>t. tree_walk t [3 / 10]) ?f = [Inr 1, Inr 7, Inr 1, Inr 7]"
    by (simp_all add: example_walks)
  obtain sb where sb: "code_gen_ensemble ?b (1 / 10) 3 = Inr sb"
    using example_ensemble_codes(1) by blast
  obtain sf where sf: "code_gen_ensemble ?f (1 / 4) 0 = Inr sf"
    using example_ensemble_codes(2) by blast
  have tb: "toolchain_implements (reference_env sb) (files empty_world)
      (cg_code_gen_ensemble (reference_env sb) ?b (1 / 10) 3) (code_gen_ensemble ?b (1 / 10) 3)"
    unfolding sb by (rule reference_env_implements)
  have tf: "toolchain_implements (reference_env sf) (files empty_world)
      (cg_code_gen_ensemble (reference_env sf) ?f (1 / 4) 0) (code_gen_ensemble ?f (1 / 4) 0)"
    unfolding sf by (rule reference_env_implements)
  obtain src vs where b: "code_gen_ensemble ?b (1 / 10) 3 = Inr src"
    "map (\<lambda>t. tree_walk t [3 / 10]) ?b = map Inr vs"
    "evaluate src [3 / 10] = Inr (3 + 1 / 10 * sum_list vs)"
    "truthy (compilable example_boosting) \<and>
      extract_descriptor example_boosting = Inr (Ensemble ?b (1 / 10) 3) \<and>
      toolchain_implements (reference_env sb) (files empty_world)
        (cg_code_gen_ensemble (reference_env sb) ?b (1 / 10) 3)
        (code_gen_ensemble ?b (1 / 10) 3) \<longrightarrow>
        (\<exists>p w'. build (reference_env sb) example_boosting empty_world = (Inr p, w') \<and>
           func (self_evaluator p) [3 / 10] = 3 + 1 / 10 * sum_list vs)"
    using compiled_ensemble_agrees_with_weighted_sum[OF ok(1) fr(1), of "1 / 10" 3
      example_boosting "reference_env sb" empty_world] by blast
  from b(1) sb have sb': "src = sb" by simp
  from b(2) wb have vb: "vs = [1, 7]" by (auto simp: map_eq_Cons_conv)
  from b(4) tb example_descriptors(1,3) obtain p w' where
    pb: "build (reference_env sb) example_boosting empty_world = (Inr p, w')"
    "func (self_evaluator p) [3 / 10] = 3 + 1 / 10 * sum_list vs" by blast
  have 1: "\<exists>src p w'. code_gen_ensemble ?b (1 / 10) 3 = Inr src \<and>
      toolchain_implements (reference_env src) (files empty_world)
        (cg_code_gen_ensemble (reference_env src) ?b (1 / 10) 3)
        (code_gen_ensemble ?b (1 / 10) 3) \<and>
      evaluate src [3 / 10] = Inr (19 / 5) \<and>
      build (reference_env src) example_boosting empty_world = (Inr p, w') \<and>
      func (self_evaluator p) [3 / 10] = 19 / 5"
  proof (intro exI[of _ sb] exI[of _ p] exI[of _ w'] conjI)
    show "code_gen_ensemble ?b (1 / 10) 3 = Inr sb" by (rule sb)
    show "toolchain_implements (reference_env sb) (files empty_world)
        (cg_code_gen_ensemble (reference_env sb) ?b (1 / 10) 3)
        (code_gen_ensemble ?b (1 / 10) 3)" by (rule tb)
    show "evaluate sb [3 / 10] = Inr (19 / 5)" using b(3) by (simp add: sb' vb)
    show "build (reference_env sb) example_boosting empty_world = (Inr p, w')" by (rule pb(1))
    show "func (self_evaluator p) [3 / 10] = 19 / 5" using pb(2) by (simp add: vb)
  qed
  obtain src' vs' where f: "code_gen_ensemble ?f (1 / 4) 0 = Inr src'"
    "map (\<lambda>t. tree_walk t [3 / 10]) ?f = map Inr vs'"
    "truthy (compilable example_forest) \<and>
      extract_descriptor example_forest = Inr (Ensemble ?f (1 / 4) 0) \<and>
      toolchain_implements (reference_env sf) (files empty_world)
        (cg_code_gen_ensemble (reference_env sf) ?f (1 / 4) 0)
        (code_gen_ensemble ?f (1 / 4) 0) \<longrightarrow>
        (\<exists>p w'. build (reference_env sf) example_forest empty_world = (Inr p, w') \<and>
           func (self_evaluator p) [3 / 10] = 0 + 1 / 4 * sum_list vs')"
    using compiled_ensemble_agrees_with_weighted_sum[OF ok(2) fr(2), of "1 / 4" 0
      example_forest "reference_env sf" empty_world] by blast
  from f(2) wf have vf: "vs' = [1, 7, 1, 7]" by (auto simp: map_eq_Cons_conv)
  from f(3) tf example_descriptors(2,4) obtain p' w'' where
    pf: "build (reference_env sf) example_forest empty_world = (Inr p', w'')"
    "func (self_evaluator p') [3 / 10] = 0 + 1 / 4 * sum_list vs'" by blast
  have 2: "\<exists>src p w'. code_gen_ensemble ?f (1 / 4) 0 = Inr src \<and>
      build (reference_env src) example_forest empty_world = (Inr p, w') \<and>
      func (self_evaluator p) [3 / 10] = 4"
    using sf pf by (intro exI[of _ sf] exI[of _ p'] exI[of _ w'']) (simp add: vf)
  show ?thesis using ok(1) fr(1) example_descriptors(1,3) wb 1 2 by blast
qed

end
